theory Spec2Isabelle
  imports Main "HOL-Library.Word" "HOL-Library.Char_ord" "HOL-Library.List_Lexorder"
begin

unbundle bit_operations_syntax

section \<open>Errors and results\<close>

text \<open>
  The host library signals failure in four ways, and each is a value of the model:
  a C++ exception (\<open>Throw\<close>), a call of \<open>exit\<close> (\<open>Exit\<close>, with the exit code and
  the line written to \<open>std::cerr\<close> before it), a failed \<open>assert\<close> (\<open>Abort\<close>), and an
  access that C++ leaves undefined, such as an index outside an array or a read of an
  uninitialised local (\<open>Undefined\<close>).
\<close>

datatype Exception = TIDL_Exception (message_m: string) | std_out_of_range

datatype error = Throw Exception | Exit int string | Abort | Undefined

definition bnd :: "error + ('a \<times> 's) \<Rightarrow> ('a \<Rightarrow> 's \<Rightarrow> error + 'b) \<Rightarrow> error + 'b" where
  "bnd m f = (case m of Inl e \<Rightarrow> Inl e | Inr (x, s) \<Rightarrow> f x s)"

section \<open>Decimal rendering (\<open>std::to_string\<close>, \<open>operator<<\<close> on an int)\<close>

fun digits :: "nat \<Rightarrow> string" where
  "digits n = (if n < 10 then [''0123456789'' ! n]
               else digits (n div 10) @ [''0123456789'' ! (n mod 10)])"

declare digits.simps [simp del]

definition to_string :: "int \<Rightarrow> string" where
  "to_string i = (if i < 0 then CHR ''-'' # digits (nat (- i)) else digits (nat i))"

section \<open>The network structures (TIDL interface header)\<close>

text \<open>
  The structures of the TIDL interface header, with the fields that executor.cpp reads
  or writes. \<open>TIDLLayers\<close> is the fixed-size layer array of the network; \<open>numLayers\<close>
  says how many of its elements the network uses.
\<close>

record sTIDL_Layer_t =
  layerType :: int
  layersGroupId :: int

record sTIDL_Network_t =
  numLayers :: int
  interElementSize :: int
  TIDLLayers :: "sTIDL_Layer_t list"

record TIDL_CreateParams =
  net :: sTIDL_Network_t
  currCoreId :: int
  currLayersGroupId :: int
  l1MemSize :: int
  l2MemSize :: int
  l3MemSize :: int
  quantHistoryParam1 :: int
  quantHistoryParam2 :: int
  quantMargin :: int
  optimiseExtMem :: int

section \<open>The OpenCL runtime\<close>

text \<open>
  The runtime is the environment of the library. Its state is a table of the live
  objects (contexts, queues, programs, kernels, buffers, events), each under the handle
  the creating call returned, and a counter of the API calls made so far. Whether the
  n-th call succeeds is decided by \<open>script\<close>: the error code that call returns, 0 being
  \<open>CL_SUCCESS\<close>. A theorem that holds for every script holds for every pattern of
  driver failures. A handle is a number; a nullable handle (\<open>cl_mem\<close>, \<open>cl_event\<close>, ...)
  is an \<open>option\<close>, \<open>None\<close> being \<open>nullptr\<close>. A successful creating call returns a
  handle that is not null, as the OpenCL specification requires. \<open>ddr\<close> is the part of
  the memory shared with the devices that holds \<open>TIDL_CreateParams\<close> objects, by
  address: \<open>None\<close> where no such object lives.
\<close>

datatype cl_device_type = CL_DEVICE_TYPE_ACCELERATOR | CL_DEVICE_TYPE_CUSTOM

datatype cl_device_id = Dev cl_device_type nat | SubDev cl_device_id nat

type_synonym handle = nat

datatype ocl_object =
    ContextObj "cl_device_id option list"
  | QueueObj "handle option" "cl_device_id" "64 word"
  | ProgramObj "handle option" "cl_device_id option list" string
  | KernelObj "handle option" string
  | BufferObj "handle option" "64 word" nat nat
  | EventObj "handle option" "handle option"

record ocl =
  script :: "nat \<Rightarrow> int"
  ncalls :: nat
  objects :: "(handle \<times> ocl_object) list"
  platform_version :: string
  platform_name :: string
  num_devices :: "cl_device_type \<Rightarrow> nat"
  max_compute_units :: int
  n_sub_devices_avail :: nat
  max_clock_frequency :: nat
  is_in_malloced_region :: "nat \<Rightarrow> bool"
  device_errorCode :: int
  ddr :: "nat \<Rightarrow> TIDL_CreateParams option"

definition api_call :: "ocl \<Rightarrow> int \<times> ocl" where
  "api_call w = (script w (ncalls w), w\<lparr>ncalls := Suc (ncalls w)\<rparr>)"

definition create_object :: "ocl_object \<Rightarrow> ocl \<Rightarrow> int \<times> handle option \<times> ocl" where
  "create_object obj w =
     (let (ret, w') = api_call w
      in if ret = 0 then (ret, Some (ncalls w), w'\<lparr>objects := objects w' @ [(ncalls w, obj)]\<rparr>)
         else (ret, None, w'))"

definition release_object :: "handle \<Rightarrow> ocl \<Rightarrow> int \<times> ocl" where
  "release_object h w =
     (let (ret, w') = api_call w
      in if ret = 0 then (ret, w'\<lparr>objects := filter (\<lambda>(h', obj). h' \<noteq> h) (objects w')\<rparr>)
         else (ret, w'))"

definition clEnqueueTask :: "handle option \<Rightarrow> handle option \<Rightarrow> ocl \<Rightarrow> int \<times> handle option \<times> ocl" where
  "clEnqueueTask queue krn w = create_object (EventObj queue krn) w"

definition clWaitForEvents :: "handle \<Rightarrow> ocl \<Rightarrow> int \<times> ocl" where
  "clWaitForEvents ev w = api_call w"

definition clReleaseEvent :: "handle \<Rightarrow> ocl \<Rightarrow> int \<times> ocl" where
  "clReleaseEvent ev w = release_object ev w"

section \<open>\<open>errorCheck\<close> and \<open>error2string\<close> (ocl\_device.cpp)\<close>

definition error2string_table :: "(int \<times> string) list" where
  "error2string_table =
    [(0, ''CL_SUCCESS''), (-1, ''CL_DEVICE_NOT_FOUND''), (-2, ''CL_DEVICE_NOT_AVAILABLE''),
     (-3, ''CL_COMPILER_NOT_AVAILABLE''), (-4, ''CL_MEM_OBJECT_ALLOCATION_FAILURE''),
     (-5, ''CL_OUT_OF_RESOURCES''), (-6, ''CL_OUT_OF_HOST_MEMORY''),
     (-7, ''CL_PROFILING_INFO_NOT_AVAILABLE''), (-8, ''CL_MEM_COPY_OVERLAP''),
     (-9, ''CL_IMAGE_FORMAT_MISMATCH''), (-10, ''CL_IMAGE_FORMAT_NOT_SUPPORTED''),
     (-11, ''CL_BUILD_PROGRAM_FAILURE''), (-12, ''CL_MAP_FAILURE''),
     (-30, ''CL_INVALID_VALUE''), (-31, ''CL_INVALID_DEVICE_TYPE''),
     (-32, ''CL_INVALID_PLATFORM''), (-33, ''CL_INVALID_DEVICE''),
     (-34, ''CL_INVALID_CONTEXT''), (-35, ''CL_INVALID_QUEUE_PROPERTIES''),
     (-36, ''CL_INVALID_COMMAND_QUEUE''), (-37, ''CL_INVALID_HOST_PTR''),
     (-38, ''CL_INVALID_MEM_OBJECT''), (-39, ''CL_INVALID_IMAGE_FORMAT_DESCRIPTOR''),
     (-40, ''CL_INVALID_IMAGE_SIZE''), (-41, ''CL_INVALID_SAMPLER''),
     (-42, ''CL_INVALID_BINARY''), (-43, ''CL_INVALID_BUILD_OPTIONS''),
     (-44, ''CL_INVALID_PROGRAM''), (-45, ''CL_INVALID_PROGRAM_EXECUTABLE''),
     (-46, ''CL_INVALID_KERNEL_NAME''), (-47, ''CL_INVALID_KERNEL_DEFINITION''),
     (-48, ''CL_INVALID_KERNEL''), (-49, ''CL_INVALID_ARG_INDEX''),
     (-50, ''CL_INVALID_ARG_VALUE''), (-51, ''CL_INVALID_ARG_SIZE''),
     (-52, ''CL_INVALID_KERNEL_ARGS''), (-53, ''CL_INVALID_WORK_DIMENSION''),
     (-54, ''CL_INVALID_WORK_GROUP_SIZE''), (-55, ''CL_INVALID_WORK_ITEM_SIZE''),
     (-56, ''CL_INVALID_GLOBAL_OFFSET''), (-57, ''CL_INVALID_EVENT_WAIT_LIST''),
     (-58, ''CL_INVALID_EVENT''), (-59, ''CL_INVALID_OPERATION''),
     (-60, ''CL_INVALID_GL_OBJECT''), (-61, ''CL_INVALID_BUFFER_SIZE''),
     (-62, ''CL_INVALID_MIP_LEVEL''), (-63, ''CL_INVALID_GLOBAL_WORK_SIZE'')]"

definition error2string :: "int \<Rightarrow> string" where
  "error2string err =
     (case map_of error2string_table err of
        Some s \<Rightarrow> s
      | None \<Rightarrow> ''Unknown OpenCL error'')"

text \<open>
  \<open>errorCheck(ret, line)\<close>: on any code but \<open>CL_SUCCESS\<close> it writes one line to
  \<open>std::cerr\<close> and calls \<open>exit(ret)\<close>; it throws nothing.
\<close>

definition errorCheck :: "int \<Rightarrow> int \<Rightarrow> 's \<Rightarrow> error + (unit \<times> 's)" where
  "errorCheck ret line s =
     (if ret \<noteq> 0
      then Inl (Exit ret (''ERROR: [ Line: '' @ to_string line @ ''] '' @ error2string ret))
      else Inr ((), s))"

section \<open>Device and Kernel state (ocl\_device.cpp)\<close>

datatype DeviceType = DSP | EVE

datatype DeviceId = ID0 | ID1 | ID2 | ID3

text \<open>
  \<open>DeviceIds\<close> is a \<open>std::set<DeviceId>\<close>; a range-for over it visits the ids in
  ascending order, which \<open>ids_list\<close> computes. \<open>static_cast<int>(id)\<close> is \<open>index_of\<close>.
\<close>

type_synonym DeviceIds = "DeviceId set"

definition ids_list :: "DeviceIds \<Rightarrow> DeviceId list" where
  "ids_list ids = filter (\<lambda>d. d \<in> ids) [ID0, ID1, ID2, ID3]"

fun index_of :: "DeviceId \<Rightarrow> nat" where
  "index_of ID0 = 0"
| "index_of ID1 = 1"
| "index_of ID2 = 2"
| "index_of ID3 = 3"

record Device =
  device_type_m :: cl_device_type
  device_ids_m :: DeviceIds
  queue_m :: "handle option list"
  context_m :: "handle option"
  program_m :: "handle option"
  freq_in_mhz_m :: nat

text \<open>
  A \<open>Kernel\<close> holds a pointer \<open>device_m\<close> to its device; the model passes the device
  to the operations that follow the pointer. \<open>event_m\<close> is the array of
  \<open>NUM_CONTEXTS\<close> completion handles, one per context slot.
\<close>

record Kernel =
  name_m :: string
  device_index_m :: nat
  kernel_m :: "handle option"
  event_m :: "handle option list"
  buffers_m :: "handle list"

text \<open>
  \<open>Kernel::RunAsync(context_idx)\<close>: enqueue the kernel on the queue of its device
  unit; the runtime stores the completion handle into \<open>event_m[context_idx]\<close>. An
  index outside \<open>queue_m\<close> or \<open>event_m\<close> is undefined in C++.
\<close>

definition Kernel_RunAsync :: "Device \<Rightarrow> nat \<Rightarrow> Kernel \<Rightarrow> ocl \<Rightarrow> error + (Kernel \<times> ocl)" where
  "Kernel_RunAsync d context_idx k w =
     (if \<not> device_index_m k < length (queue_m d) \<or> \<not> context_idx < length (event_m k)
      then Inl Undefined
      else
        let (ret, ev, w1) = clEnqueueTask (queue_m d ! device_index_m k) (kernel_m k) w;
            k1 = (if ret = 0 then k\<lparr>event_m := (event_m k)[context_idx := ev]\<rparr> else k)
        in bnd (errorCheck ret 323 w1) (\<lambda>_ w2. Inr (k1, w2)))"

text \<open>
  \<open>Kernel::Wait(context_idx)\<close>: false at once when the slot holds no handle;
  otherwise wait for the event, release it, clear the slot and return true.
\<close>

definition Kernel_Wait :: "nat \<Rightarrow> Kernel \<Rightarrow> ocl \<Rightarrow> error + ((bool \<times> Kernel) \<times> ocl)" where
  "Kernel_Wait context_idx k w =
     (if \<not> context_idx < length (event_m k) then Inl Undefined
      else
        case event_m k ! context_idx of
          None \<Rightarrow> Inr ((False, k), w)
        | Some ev \<Rightarrow>
            let (ret, w1) = clWaitForEvents ev w
            in bnd (errorCheck ret 336 w1) (\<lambda>_ w2.
                 let (ret2, w3) = clReleaseEvent ev w2
                 in bnd (errorCheck ret2 339 w3) (\<lambda>_ w4.
                      Inr ((True, k\<lparr>event_m := (event_m k)[context_idx := None]\<rparr>), w4))))"

section \<open>Constants of headers that are not part of the sources read\<close>

text \<open>
  ocl\_device.h, common\_defines.h, the TIDL interface header, the generated DSP binary
  header and make.buildid are not among the sources. Every constant the code takes from
  them is a field of \<open>macros\<close>, a parameter of the model. So is \<open>handle_init\<close>, the
  initialiser that the declaration of \<open>Device\<close> in ocl\_device.h gives the members
  \<open>context_m\<close> and \<open>program_m\<close>, which no constructor of \<open>Device\<close> initialises:
  \<open>None\<close> when the declaration gives none, so that the members are indeterminate until
  a derived constructor assigns them.
\<close>

record macros =
  MAX_DEVICES :: nat
  NUM_CONTEXTS :: nat
  ocl_wrapper_dsp_bin_len :: nat
  BUILD_VER :: string
  BUILD_SHA :: string
  SETUP_KERNEL :: string
  INIT_KERNEL :: string
  PROCESS_KERNEL :: string
  CLEANUP_KERNEL :: string
  context_idx_default :: nat
  sizeof_TIDL_CreateParams :: nat
  offsetof_TIDL_CreateParams_net :: nat
  sizeof_OCL_TIDL_SetupParams :: nat
  DMEM0_SIZE :: int
  DMEM1_SIZE :: int
  OCMC_SIZE :: int
  QUANT_HISTORY_PARAM1 :: int
  QUANT_HISTORY_PARAM2 :: int
  QUANT_MARGIN :: int
  TIDL_optimiseExtMemL1 :: int
  OCL_TIDL_TRACE_OFF :: int
  OCL_TIDL_SUCCESS :: int
  OCL_TIDL_ERROR :: int
  OCL_TIDL_ALLOC_FAIL :: int
  OCL_TIDL_MEMREC_ALLOC_FAIL :: int
  OCL_TIDL_PROCESS_FAIL :: int
  OCL_TIDL_CREATE_PARAMS_MISMATCH :: int
  TIDL_DataLayer :: int
  handle_init :: "handle option option"

section \<open>\<open>Exception\<close> (executor.cpp)\<close>

text \<open>
  Both constructors build \<open>message_m\<close> from the source location; the second maps
  a device error code to a text, in the order of the source's \<open>if\<close> chain.
  \<open>std::to_string\<close> of the unsigned line number is \<open>digits\<close>.
\<close>

definition location_prefix :: "string \<Rightarrow> string \<Rightarrow> nat \<Rightarrow> string" where
  "location_prefix file func line_no =
     ''TIDL Error: ['' @ file @ '', '' @ func @ '', '' @ digits line_no @ '']: ''"

definition Exception_error :: "string \<Rightarrow> string \<Rightarrow> string \<Rightarrow> nat \<Rightarrow> Exception" where
  "Exception_error err file func line_no =
     TIDL_Exception (location_prefix file func line_no @ err)"

definition errorCode_text :: "macros \<Rightarrow> int \<Rightarrow> string" where
  "errorCode_text c errorCode =
     (if errorCode = OCL_TIDL_ERROR c then []
      else if errorCode = OCL_TIDL_ALLOC_FAIL c then ''Allocation failed on device''
      else if errorCode = OCL_TIDL_MEMREC_ALLOC_FAIL c then ''Memrec allocation failed on device''
      else if errorCode = OCL_TIDL_PROCESS_FAIL c then ''Process call failed on device''
      else if errorCode = OCL_TIDL_CREATE_PARAMS_MISMATCH c
        then ''TIDL_CreateParams definition inconsistent across hostand device.''
      else to_string errorCode)"

definition Exception_errorCode :: "macros \<Rightarrow> int \<Rightarrow> string \<Rightarrow> string \<Rightarrow> nat \<Rightarrow> Exception" where
  "Exception_errorCode c errorCode file func line_no =
     TIDL_Exception (location_prefix file func line_no @ errorCode_text c errorCode)"

section \<open>More of the OpenCL runtime\<close>

text \<open>
  An array that a query fills is a list of \<open>option\<close>s: \<open>None\<close> marks an element the
  runtime did not write. \<open>at\<close> reads an element; outside the array, or on an element
  never written, the C++ read is undefined.
\<close>

definition at :: "'a option list \<Rightarrow> nat \<Rightarrow> 's \<Rightarrow> error + ('a \<times> 's)" where
  "at xs i s =
     (if i < length xs then (case xs ! i of None \<Rightarrow> Inl Undefined | Some x \<Rightarrow> Inr (x, s))
      else Inl Undefined)"

definition CL_QUEUE_OUT_OF_ORDER_EXEC_MODE_ENABLE :: "64 word" where
  "CL_QUEUE_OUT_OF_ORDER_EXEC_MODE_ENABLE = push_bit 0 1"

definition CL_QUEUE_PROFILING_ENABLE :: "64 word" where
  "CL_QUEUE_PROFILING_ENABLE = push_bit 1 1"

definition CL_MEM_READ_WRITE :: "64 word" where
  "CL_MEM_READ_WRITE = push_bit 0 1"

definition CL_MEM_USE_HOST_PTR :: "64 word" where
  "CL_MEM_USE_HOST_PTR = push_bit 3 1"

definition CL_MEM_COPY_HOST_PTR :: "64 word" where
  "CL_MEM_COPY_HOST_PTR = push_bit 5 1"

definition clGetDeviceIDs ::
    "cl_device_type \<Rightarrow> nat \<Rightarrow> ocl \<Rightarrow> int \<times> cl_device_id option list \<times> nat option \<times> ocl" where
  "clGetDeviceIDs t num_entries w =
     (let (ret, w') = api_call w
      in if ret = 0
         then (ret,
               map (\<lambda>i. if i < num_devices w t then Some (Dev t i) else None) [0..<num_entries],
               Some (num_devices w t), w')
         else (ret, replicate num_entries None, None, w'))"

definition clGetDeviceInfo_MAX_COMPUTE_UNITS :: "cl_device_id \<Rightarrow> ocl \<Rightarrow> int \<times> int option \<times> ocl" where
  "clGetDeviceInfo_MAX_COMPUTE_UNITS dev w =
     (let (ret, w') = api_call w
      in if ret = 0 then (ret, Some (max_compute_units w), w') else (ret, None, w'))"

definition clGetDeviceInfo_MAX_CLOCK_FREQUENCY :: "cl_device_id \<Rightarrow> ocl \<Rightarrow> int \<times> nat option \<times> ocl" where
  "clGetDeviceInfo_MAX_CLOCK_FREQUENCY dev w =
     (let (ret, w') = api_call w
      in if ret = 0 then (ret, Some (max_clock_frequency w), w') else (ret, None, w'))"

definition clCreateContextFromType :: "cl_device_type \<Rightarrow> ocl \<Rightarrow> int \<times> handle option \<times> ocl" where
  "clCreateContextFromType t w =
     create_object (ContextObj (map (\<lambda>i. Some (Dev t i)) [0..<num_devices w t])) w"

definition clCreateContext :: "cl_device_id option list \<Rightarrow> ocl \<Rightarrow> int \<times> handle option \<times> ocl" where
  "clCreateContext devs w = create_object (ContextObj devs) w"

definition clCreateCommandQueue ::
    "handle option \<Rightarrow> cl_device_id \<Rightarrow> 64 word \<Rightarrow> ocl \<Rightarrow> int \<times> handle option \<times> ocl" where
  "clCreateCommandQueue ctx dev props w = create_object (QueueObj ctx dev props) w"

definition clCreateSubDevices_count :: "cl_device_id \<Rightarrow> ocl \<Rightarrow> int \<times> nat option \<times> ocl" where
  "clCreateSubDevices_count dev w =
     (let (ret, w') = api_call w
      in if ret = 0 then (ret, Some (n_sub_devices_avail w), w') else (ret, None, w'))"

definition clCreateSubDevices ::
    "cl_device_id \<Rightarrow> nat \<Rightarrow> nat \<Rightarrow> ocl \<Rightarrow> int \<times> cl_device_id option list \<times> ocl" where
  "clCreateSubDevices dev n len w =
     (let (ret, w') = api_call w
      in if ret = 0
         then (ret, map (\<lambda>i. if i < n then Some (SubDev dev i) else None) [0..<len], w')
         else (ret, replicate len None, w'))"

definition clCreateProgramWithBinary ::
    "handle option \<Rightarrow> cl_device_id option list \<Rightarrow> ocl \<Rightarrow> int \<times> handle option \<times> ocl" where
  "clCreateProgramWithBinary ctx devs w =
     create_object (ProgramObj ctx devs ''ocl_wrapper_dsp_bin'') w"

definition clBuildProgram :: "handle option \<Rightarrow> ocl \<Rightarrow> int \<times> ocl" where
  "clBuildProgram prog w = api_call w"

definition clFinish :: "handle option \<Rightarrow> ocl \<Rightarrow> int \<times> ocl" where
  "clFinish q w = api_call w"

definition clReleaseCommandQueue :: "handle option \<Rightarrow> ocl \<Rightarrow> int \<times> ocl" where
  "clReleaseCommandQueue q w = (case q of None \<Rightarrow> api_call w | Some h \<Rightarrow> release_object h w)"

definition clReleaseProgram :: "handle option \<Rightarrow> ocl \<Rightarrow> int \<times> ocl" where
  "clReleaseProgram prog w = (case prog of None \<Rightarrow> api_call w | Some h \<Rightarrow> release_object h w)"

definition clReleaseContext :: "handle option \<Rightarrow> ocl \<Rightarrow> int \<times> ocl" where
  "clReleaseContext ctx w = (case ctx of None \<Rightarrow> api_call w | Some h \<Rightarrow> release_object h w)"

definition clCreateProgramWithBuiltInKernels ::
    "handle option \<Rightarrow> cl_device_id option list \<Rightarrow> string \<Rightarrow> ocl \<Rightarrow> int \<times> handle option \<times> ocl" where
  "clCreateProgramWithBuiltInKernels ctx devs kernel_names w =
     create_object (ProgramObj ctx devs kernel_names) w"

definition clCreateKernel :: "handle option \<Rightarrow> string \<Rightarrow> ocl \<Rightarrow> int \<times> handle option \<times> ocl" where
  "clCreateKernel prog name w = create_object (KernelObj prog name) w"

definition clSetKernelArg :: "handle option \<Rightarrow> nat \<Rightarrow> ocl \<Rightarrow> int \<times> ocl" where
  "clSetKernelArg krn arg_index w = api_call w"

definition clCreateBuffer ::
    "handle option \<Rightarrow> 64 word \<Rightarrow> nat \<Rightarrow> nat \<Rightarrow> ocl \<Rightarrow> int \<times> handle option \<times> ocl" where
  "clCreateBuffer ctx flags sz host_ptr w = create_object (BufferObj ctx flags sz host_ptr) w"

definition clReleaseMemObject :: "handle \<Rightarrow> ocl \<Rightarrow> int \<times> ocl" where
  "clReleaseMemObject m w = release_object m w"

definition clReleaseKernel :: "handle option \<Rightarrow> ocl \<Rightarrow> int \<times> ocl" where
  "clReleaseKernel krn w = (case krn of None \<Rightarrow> api_call w | Some h \<Rightarrow> release_object h w)"

definition read_out :: "'a option \<Rightarrow> 's \<Rightarrow> error + ('a \<times> 's)" where
  "read_out x s = (case x of None \<Rightarrow> Inl Undefined | Some v \<Rightarrow> Inr (v, s))"

section \<open>Device construction (ocl\_device.cpp)\<close>

text \<open>
  \<open>Device::Device\<close> stores the type and the ids and clears all \<open>MAX_DEVICES\<close> queue
  slots. It does not touch \<open>context_m\<close> and \<open>program_m\<close>: they hold what the
  declaration initialises them with, and are indeterminate when it gives no initialiser
  (\<open>handle_init c = None\<close>). The record then holds \<open>None\<close> in their place, and the one
  read of them that can come before the derived constructor's assignment, in the
  destructor that runs when \<open>DspDevice\<close> throws, is undefined.
\<close>

definition Device_base :: "macros \<Rightarrow> cl_device_type \<Rightarrow> DeviceIds \<Rightarrow> Device" where
  "Device_base c t ids =
     \<lparr>device_type_m = t, device_ids_m = ids, queue_m = replicate (MAX_DEVICES c) None,
      context_m = (case handle_init c of None \<Rightarrow> None | Some v \<Rightarrow> v),
      program_m = (case handle_init c of None \<Rightarrow> None | Some v \<Rightarrow> v),
      freq_in_mhz_m = 0\<rparr>"

text \<open>
  \<open>Device::~Device\<close> (lines 412--423): \<open>for (i = 0; i < device_ids_m.size(); i++)
  { clFinish(queue_m[i]); clReleaseCommandQueue(queue_m[i]); }\<close>, then
  \<open>clReleaseProgram(program_m); clReleaseContext(context_m);\<close>. The loop runs over
  the first slots of the queue array, not over the requested ids, and no result is
  checked.
\<close>

fun release_queues :: "handle option list \<Rightarrow> nat list \<Rightarrow> ocl \<Rightarrow> error + (unit \<times> ocl)" where
  "release_queues qs [] w = Inr ((), w)"
| "release_queues qs (i # js) w =
     (if \<not> i < length qs then Inl Undefined
      else let w1 = snd (clFinish (qs ! i) w);
               w2 = snd (clReleaseCommandQueue (qs ! i) w1)
           in release_queues qs js w2)"

definition Device_delete :: "Device \<Rightarrow> ocl \<Rightarrow> error + (unit \<times> ocl)" where
  "Device_delete d w =
     bnd (release_queues (queue_m d) [0..<card (device_ids_m d)] w) (\<lambda>_ w1.
       let w2 = snd (clReleaseProgram (program_m d) w1);
           w3 = snd (clReleaseContext (context_m d) w2)
       in Inr ((), w3))"

text \<open>
  The loop \<open>for (auto id : device_ids_m) queue_m[index] = clCreateCommandQueue(context_m,
  devices[index], props, &errcode); errorCheck(errcode, __LINE__);\<close> occurs twice, over the
  sub-devices in \<open>DspDevice\<close> (line 144) and over the physical devices in \<open>EveDevice\<close>
  (line 193).
\<close>

fun create_queues ::
    "handle option \<Rightarrow> cl_device_id option list \<Rightarrow> 64 word \<Rightarrow> int \<Rightarrow> DeviceId list \<Rightarrow>
     handle option list \<Rightarrow> ocl \<Rightarrow> error + (handle option list \<times> ocl)" where
  "create_queues ctx devs props line [] qs w = Inr (qs, w)"
| "create_queues ctx devs props line (did # ids) qs w =
     (let index = index_of did
      in if \<not> index < length qs then Inl Undefined
         else bnd (at devs index w) (\<lambda>dev w.
           let (errcode, q, w1) = clCreateCommandQueue ctx dev props w
           in bnd (errorCheck errcode line w1) (\<lambda>_ w2.
                create_queues ctx devs props line ids (qs[index := q]) w2)))"

definition DspDevice_BuildProgramFromBinary ::
    "macros \<Rightarrow> Device \<Rightarrow> cl_device_id option list \<Rightarrow> nat \<Rightarrow> ocl \<Rightarrow> error + (Device \<times> ocl)" where
  "DspDevice_BuildProgramFromBinary c d device_ids n_devices w =
     (if ocl_wrapper_dsp_bin_len c = 0 then Inl Abort
      else
        let (err, prog, w1) = clCreateProgramWithBinary (context_m d) (take n_devices device_ids) w
        in bnd (errorCheck err 233 w1) (\<lambda>_ w2.
             let (err, w3) = clBuildProgram prog w2
             in bnd (errorCheck err 237 w3) (\<lambda>_ w4. Inr (d\<lparr>program_m := prog\<rparr>, w4))))"

text \<open>The branch \<open>num_compute_units == 1\<close> of \<open>DspDevice::DspDevice\<close>: queue 0 on device 0.\<close>

definition DspDevice_one_unit ::
    "macros \<Rightarrow> Device \<Rightarrow> cl_device_id \<Rightarrow> cl_device_id option list \<Rightarrow> ocl \<Rightarrow> error + (Device \<times> ocl)" where
  "DspDevice_one_unit c d dev0 device_ids w =
     (let (errcode, ctx, w1) = clCreateContextFromType (device_type_m d) w
      in bnd (errorCheck errcode 89 w1) (\<lambda>_ w2.
           if \<not> 0 < length (queue_m d) then Inl Undefined
           else
             let (errcode, q, w3) = clCreateCommandQueue ctx dev0 CL_QUEUE_PROFILING_ENABLE w2
             in bnd (errorCheck errcode 96 w3) (\<lambda>_ w4.
                  DspDevice_BuildProgramFromBinary c
                    (d\<lparr>context_m := ctx, queue_m := (queue_m d)[0 := q]\<rparr>) device_ids 1 w4)))"

text \<open>The \<open>else\<close> branch: two sub-devices, one context over both, a queue per requested id.\<close>

definition DspDevice_sub_devices ::
    "macros \<Rightarrow> Device \<Rightarrow> cl_device_id \<Rightarrow> ocl \<Rightarrow> error + (Device \<times> ocl)" where
  "DspDevice_sub_devices c d dev0 w =
     (let NUM_SUB_DEVICES = 2;
          (errcode, n_sub, w1) = clCreateSubDevices_count dev0 w
      in bnd (errorCheck errcode 114 w1) (\<lambda>_ w2.
         bnd (read_out n_sub w2) (\<lambda>n_sub_devices w2.
           if n_sub_devices \<noteq> NUM_SUB_DEVICES then Inl Abort
           else
             let (errcode, sub_devices, w3) =
                   clCreateSubDevices dev0 n_sub_devices NUM_SUB_DEVICES w2
             in bnd (errorCheck errcode 125 w3) (\<lambda>_ w4.
                  let (errcode, ctx, w5) = clCreateContext (take NUM_SUB_DEVICES sub_devices) w4
                  in bnd (errorCheck errcode 134 w5) (\<lambda>_ w6.
                     bnd (create_queues ctx sub_devices CL_QUEUE_PROFILING_ENABLE 144
                            (ids_list (device_ids_m d)) (queue_m d) w6) (\<lambda>qs w7.
                       DspDevice_BuildProgramFromBinary c
                         (d\<lparr>context_m := ctx, queue_m := qs\<rparr>) sub_devices NUM_SUB_DEVICES w7))))))"

text \<open>
  \<open>DspDevice::DspDevice\<close>. The exception of line 72 leaves the constructor body with
  the base object complete, so \<open>Device::~Device\<close> runs before the exception reaches
  the caller; \<open>context_m\<close> and \<open>program_m\<close> have not been assigned at that point.
  The result of the query for the number of compute units is not checked.
\<close>

definition DspDevice :: "macros \<Rightarrow> DeviceIds \<Rightarrow> string \<Rightarrow> ocl \<Rightarrow> error + (Device \<times> ocl)" where
  "DspDevice c ids binary_filename w =
     (let d = Device_base c CL_DEVICE_TYPE_ACCELERATOR ids;
          (errcode, device_ids, num_devices_found, w1) =
             clGetDeviceIDs (device_type_m d) (MAX_DEVICES c) w
      in bnd (errorCheck errcode 69 w1) (\<lambda>_ w2.
         bnd (read_out num_devices_found w2) (\<lambda>found w2.
           if found \<noteq> 1
           then if handle_init c = None then Inl Undefined
                else bnd (Device_delete d w2) (\<lambda>_ w3.
                       Inl (Throw (Exception_error ''OpenCL DSP device not found''
                                     ''src/ocl_device.cpp'' ''DspDevice'' 73)))
           else
             bnd (at device_ids 0 w2) (\<lambda>dev0 w2.
               let (errcode, num_compute_units, w3) = clGetDeviceInfo_MAX_COMPUTE_UNITS dev0 w2
               in bnd (read_out num_compute_units w3) (\<lambda>ncu w3.
                  bnd (if ncu = 1 then DspDevice_one_unit c d dev0 device_ids w3
                       else DspDevice_sub_devices c d dev0 w3) (\<lambda>d1 w4.
                    let (errcode, freq, w5) = clGetDeviceInfo_MAX_CLOCK_FREQUENCY dev0 w4
                    in bnd (errorCheck errcode 155 w5) (\<lambda>_ w6.
                         Inr (case freq of None \<Rightarrow> d1 | Some f \<Rightarrow> d1\<lparr>freq_in_mhz_m := f\<rparr>, w6))))))))"

text \<open>
  \<open>EveDevice::BuildProgramFromBinary\<close> copies the device of every requested id into
  \<open>executor_device_ids\<close> (an array of \<open>MAX_DEVICES\<close>) and creates the program from
  the built-in kernels.
\<close>

fun gather_ids ::
    "cl_device_id option list \<Rightarrow> DeviceId list \<Rightarrow> nat \<Rightarrow> cl_device_id option list \<Rightarrow> ocl \<Rightarrow>
     error + (cl_device_id option list \<times> ocl)" where
  "gather_ids device_ids [] i acc w = Inr (acc, w)"
| "gather_ids device_ids (did # ids) i acc w =
     (if \<not> i < length acc then Inl Undefined
      else bnd (at device_ids (index_of did) w) (\<lambda>dev w.
             gather_ids device_ids ids (Suc i) (acc[i := Some dev]) w))"

definition EveDevice_BuildProgramFromBinary ::
    "macros \<Rightarrow> Device \<Rightarrow> string \<Rightarrow> cl_device_id option list \<Rightarrow> nat \<Rightarrow> ocl \<Rightarrow>
     error + (Device \<times> ocl)" where
  "EveDevice_BuildProgramFromBinary c d kernel_names device_ids n_devices w =
     bnd (gather_ids device_ids (ids_list (device_ids_m d)) 0 (replicate (MAX_DEVICES c) None) w)
       (\<lambda>executor_device_ids w1.
          let (err, prog, w2) =
                clCreateProgramWithBuiltInKernels (context_m d)
                  (take n_devices executor_device_ids) kernel_names w1
          in bnd (errorCheck err 258 w2) (\<lambda>_ w3. Inr (d\<lparr>program_m := prog\<rparr>, w3)))"

definition EveDevice :: "macros \<Rightarrow> DeviceIds \<Rightarrow> string \<Rightarrow> ocl \<Rightarrow> error + (Device \<times> ocl)" where
  "EveDevice c ids kernel_names w =
     (let d = Device_base c CL_DEVICE_TYPE_CUSTOM ids;
          (errcode, all_device_ids, num_devices_found, w1) =
             clGetDeviceIDs (device_type_m d) (MAX_DEVICES c) w
      in bnd (errorCheck errcode 171 w1) (\<lambda>_ w2.
         bnd (read_out num_devices_found w2) (\<lambda>found w2.
           if \<not> length (ids_list (device_ids_m d)) \<le> found then Inl Abort
           else
             let (errcode, ctx, w3) = clCreateContextFromType (device_type_m d) w2
             in bnd (errorCheck errcode 180 w3) (\<lambda>_ w4.
                bnd (create_queues ctx all_device_ids
                       (CL_QUEUE_PROFILING_ENABLE OR CL_QUEUE_OUT_OF_ORDER_EXEC_MODE_ENABLE) 193
                       (ids_list (device_ids_m d)) (queue_m d) w4) (\<lambda>qs w5.
                bnd (EveDevice_BuildProgramFromBinary c (d\<lparr>context_m := ctx, queue_m := qs\<rparr>)
                       kernel_names all_device_ids (length (ids_list (device_ids_m d))) w5)
                  (\<lambda>d1 w6.
                bnd (at all_device_ids 0 w6) (\<lambda>dev0 w6.
                  let (errcode, freq, w7) = clGetDeviceInfo_MAX_CLOCK_FREQUENCY dev0 w6
                  in bnd (errorCheck errcode 203 w7) (\<lambda>_ w8.
                       Inr (case freq of None \<Rightarrow> d1 | Some f \<Rightarrow> d1\<lparr>freq_in_mhz_m := f\<rparr>, w8)))))))))"

text \<open>\<open>Device::Create\<close> returns a \<open>unique_ptr\<close>; both device types give a device.\<close>

definition Device_Create ::
    "macros \<Rightarrow> DeviceType \<Rightarrow> DeviceIds \<Rightarrow> string \<Rightarrow> ocl \<Rightarrow> error + (Device option \<times> ocl)" where
  "Device_Create c core_type ids name w =
     (case core_type of
        DSP \<Rightarrow> bnd (DspDevice c ids name w) (\<lambda>d w'. Inr (Some d, w'))
      | EVE \<Rightarrow> bnd (EveDevice c ids name w) (\<lambda>d w'. Inr (Some d, w')))"

section \<open>Buffers and kernel construction (ocl\_device.cpp)\<close>

text \<open>
  device\_arginfo.h is not among the sources; \<open>DeviceArgInfo\<close> is the record of what the
  accessors used in ocl\_device.cpp return: \<open>ptr()\<close>, \<open>size()\<close>, \<open>kind()\<close>, \<open>isLocal()\<close>.
  A host pointer is an address, null being \<open>None\<close>.
\<close>

datatype Kind = BUFFER | SCALAR | OTHER

record DeviceArgInfo =
  arg_ptr :: "nat option"
  arg_size :: nat
  arg_kind :: Kind
  arg_isLocal :: bool

definition Device_CreateBuffer :: "Device \<Rightarrow> DeviceArgInfo \<Rightarrow> ocl \<Rightarrow> error + (handle option \<times> ocl)" where
  "Device_CreateBuffer d Arg w =
     (let sz = arg_size Arg
      in case arg_ptr Arg of
           None \<Rightarrow> Inr (None, w)
         | Some host_ptr \<Rightarrow>
             let hostPtrInCMEM = is_in_malloced_region w host_ptr;
                 flag = CL_MEM_READ_WRITE;
                 flag = (if hostPtrInCMEM then flag OR CL_MEM_USE_HOST_PTR
                         else flag OR CL_MEM_COPY_HOST_PTR);
                 (errcode, buffer, w1) = clCreateBuffer (context_m d) flag sz host_ptr w
             in bnd (errorCheck errcode 398 w1) (\<lambda>_ w2. Inr (buffer, w2)))"

definition Device_ReleaseBuffer :: "handle \<Rightarrow> ocl \<Rightarrow> ocl" where
  "Device_ReleaseBuffer M w = snd (clReleaseMemObject M w)"

fun bind_args ::
    "Device \<Rightarrow> handle option \<Rightarrow> DeviceArgInfo list \<Rightarrow> nat \<Rightarrow> handle list \<Rightarrow> ocl \<Rightarrow>
     error + (handle list \<times> ocl)" where
  "bind_args d krn [] arg_index bufs w = Inr (bufs, w)"
| "bind_args d krn (arg # args) arg_index bufs w =
     (if \<not> arg_isLocal arg then
        if arg_kind arg = BUFFER then
          bnd (Device_CreateBuffer d arg w) (\<lambda>buffer w1.
            let w2 = snd (clSetKernelArg krn arg_index w1)
            in bind_args d krn args (Suc arg_index)
                 (case buffer of None \<Rightarrow> bufs | Some b \<Rightarrow> bufs @ [b]) w2)
        else if arg_kind arg = SCALAR then
          bind_args d krn args (Suc arg_index) bufs (snd (clSetKernelArg krn arg_index w))
        else bind_args d krn args (Suc arg_index) bufs w
      else bind_args d krn args (Suc arg_index) bufs (snd (clSetKernelArg krn arg_index w)))"

definition Kernel_new ::
    "macros \<Rightarrow> Device \<Rightarrow> string \<Rightarrow> DeviceArgInfo list \<Rightarrow> nat \<Rightarrow> ocl \<Rightarrow> error + (Kernel \<times> ocl)" where
  "Kernel_new c d name args device_index w =
     (let (err, krn, w1) = clCreateKernel (program_m d) name w
      in bnd (errorCheck err 270 w1) (\<lambda>_ w2.
         bnd (bind_args d krn args 0 [] w2) (\<lambda>bufs w3.
           Inr (\<lparr>name_m = name, device_index_m = device_index, kernel_m = krn,
                 event_m = replicate (NUM_CONTEXTS c) None, buffers_m = bufs\<rparr>, w3))))"

definition Kernel_delete :: "Kernel \<Rightarrow> ocl \<Rightarrow> ocl" where
  "Kernel_delete k w = snd (clReleaseKernel (kernel_m k) (fold Device_ReleaseBuffer (buffers_m k) w))"

section \<open>\<open>Device::GetNumDevices\<close> (ocl\_device.cpp)\<close>

text \<open>
  \<open>std::string::find\<close> returns the first position of the pattern, or \<open>npos\<close>
  (here \<open>None\<close>). \<open>substr(pos, n)\<close> throws \<open>std::out_of_range\<close> when \<open>pos\<close> is
  beyond the size, as \<open>npos\<close> always is. Strings compare as sequences of unsigned
  bytes.
\<close>

fun find_from :: "string \<Rightarrow> string \<Rightarrow> nat \<Rightarrow> nat option" where
  "find_from pat [] i = (if pat = [] then Some i else None)"
| "find_from pat (x # xs) i =
     (if take (length pat) (x # xs) = pat then Some i else find_from pat xs (Suc i))"

definition string_find :: "string \<Rightarrow> string \<Rightarrow> nat option" where
  "string_find s pat = find_from pat s 0"

definition substr :: "string \<Rightarrow> nat option \<Rightarrow> nat \<Rightarrow> 's \<Rightarrow> error + (string \<times> 's)" where
  "substr s pos n st =
     (case pos of
        None \<Rightarrow> Inl (Throw std_out_of_range)
      | Some p \<Rightarrow> if length s < p then Inl (Throw std_out_of_range)
                  else Inr (take n (drop p s), st))"

text \<open>\<open>std::string(const char*)\<close> stops at the first NUL byte.\<close>

definition c_string :: "string \<Rightarrow> string" where
  "c_string buf = takeWhile (\<lambda>ch. ch \<noteq> CHR 0x00) buf"

datatype cl_platform_info = CL_PLATFORM_VERSION | CL_PLATFORM_NAME

definition clGetPlatformIDs :: "ocl \<Rightarrow> int \<times> ocl" where
  "clGetPlatformIDs w = api_call w"

definition platform_info :: "ocl \<Rightarrow> cl_platform_info \<Rightarrow> string" where
  "platform_info w param =
     (case param of CL_PLATFORM_VERSION \<Rightarrow> platform_version w
                  | CL_PLATFORM_NAME \<Rightarrow> platform_name w)"

definition clGetPlatformInfo_size :: "cl_platform_info \<Rightarrow> ocl \<Rightarrow> int \<times> nat option \<times> ocl" where
  "clGetPlatformInfo_size param w =
     (let (ret, w') = api_call w
      in if ret = 0 then (ret, Some (Suc (length (platform_info w param))), w')
         else (ret, None, w'))"

definition clGetPlatformInfo_value :: "cl_platform_info \<Rightarrow> ocl \<Rightarrow> int \<times> string option \<times> ocl" where
  "clGetPlatformInfo_value param w =
     (let (ret, w') = api_call w
      in if ret = 0 then (ret, Some (platform_info w param), w') else (ret, None, w'))"

definition MIN_OCL_VERSION :: string where
  "MIN_OCL_VERSION = ''01.01.17.00''"

text \<open>
  \<open>CheckOpenCLVersion\<close>. \<open>sizeof(MIN_OCL_VERSION)\<close> counts the terminating NUL. The
  message written to \<open>std::cerr\<close> before \<open>return false\<close> is not part of the state.
\<close>

definition CheckOpenCLVersion :: "ocl \<Rightarrow> error + (bool \<times> ocl)" where
  "CheckOpenCLVersion w =
     (let (err, len, w1) = clGetPlatformInfo_size CL_PLATFORM_VERSION w
      in if err \<noteq> 0 then Inr (False, w1)
         else
           let (err, version, w2) = clGetPlatformInfo_value CL_PLATFORM_VERSION w1
           in if err \<noteq> 0 then Inr (False, w2)
              else
                bnd (read_out version w2) (\<lambda>buf w2.
                  let v = c_string buf
                  in bnd (substr v (string_find v ''01.'') (Suc (length MIN_OCL_VERSION)) w2)
                       (\<lambda>sub w2.
                          if sub \<ge> MIN_OCL_VERSION then Inr (True, w2) else Inr (False, w2))))"

definition PlatformIsAM57 :: "ocl \<Rightarrow> error + (bool \<times> ocl)" where
  "PlatformIsAM57 w =
     (let (err, w1) = clGetPlatformIDs w
      in if err \<noteq> 0 then Inr (False, w1)
         else
           bnd (CheckOpenCLVersion w1) (\<lambda>ok w2.
             if \<not> ok then Inr (False, w2)
             else
               let (err, len, w3) = clGetPlatformInfo_size CL_PLATFORM_NAME w2
               in if err \<noteq> 0 then Inr (False, w3)
                  else
                    let (err, name, w4) = clGetPlatformInfo_value CL_PLATFORM_NAME w3
                    in if err \<noteq> 0 then Inr (False, w4)
                       else
                         bnd (read_out name w4) (\<lambda>buf w4.
                           let platform_name = c_string buf
                           in if string_find platform_name ''AM57'' = None then Inr (False, w4)
                              else Inr (True, w4))))"

text \<open>
  \<open>Device::GetNumDevices\<close> returns a \<open>uint32_t\<close>; the \<open>cl_int\<close> number of compute
  units is converted on return.
\<close>

definition Device_GetNumDevices :: "macros \<Rightarrow> DeviceType \<Rightarrow> ocl \<Rightarrow> error + (32 word \<times> ocl)" where
  "Device_GetNumDevices c device_type w =
     bnd (PlatformIsAM57 w) (\<lambda>am57 w1.
       if \<not> am57 then Inr (0, w1)
       else
         let t = (if device_type = EVE then CL_DEVICE_TYPE_CUSTOM else CL_DEVICE_TYPE_ACCELERATOR);
             (errcode, all_device_ids, num_devices_found, w2) = clGetDeviceIDs t (MAX_DEVICES c) w1
         in if errcode \<noteq> 0 then Inr (0, w2)
            else
              bnd (read_out num_devices_found w2) (\<lambda>found w2.
                if found = 0 then Inr (0, w2)
                else if t = CL_DEVICE_TYPE_ACCELERATOR then
                  bnd (at all_device_ids 0 w2) (\<lambda>dev0 w2.
                    let (errcode, num_compute_units, w3) = clGetDeviceInfo_MAX_COMPUTE_UNITS dev0 w2
                    in if errcode \<noteq> 0 then Inr (0, w3)
                       else bnd (read_out num_compute_units w3) (\<lambda>ncu w3.
                              Inr (word_of_int ncu, w3)))
                else Inr (of_nat found, w2)))"

definition Executor_GetNumDevices :: "macros \<Rightarrow> DeviceType \<Rightarrow> ocl \<Rightarrow> error + (32 word \<times> ocl)" where
  "Executor_GetNumDevices c device_type w = Device_GetNumDevices c device_type w"

section \<open>\<open>Executor::GetAPIVersion\<close> (executor.cpp)\<close>

text \<open>
  \<open>version\<close> is a function-local \<open>static std::string\<close>: it is initialised from
  \<open>_BUILD_VER\<close> by the first call only and keeps its value between calls. The state is
  \<open>None\<close> before the first call. Every call executes both \<open>+=\<close> statements.
\<close>

definition Executor_GetAPIVersion :: "macros \<Rightarrow> string option \<Rightarrow> string \<times> string option" where
  "Executor_GetAPIVersion c version_static =
     (let version = (case version_static of None \<Rightarrow> BUILD_VER c | Some v \<Rightarrow> v);
          version = version @ ''.'';
          version = version @ BUILD_SHA c
      in (version, Some version))"

section \<open>Executor (executor.cpp)\<close>

text \<open>
  The structures of configuration.h and the setup parameters, with the fields that
  executor.cpp reads or writes.
\<close>

record Configuration =
  netBinFile :: string
  paramsBinFile :: string
  runFullNet :: bool
  PARAM_HEAP_SIZE :: nat
  EXTMEM_HEAP_SIZE :: nat
  noZeroCoeffsPercentage :: int
  enableInternalInput :: bool

record OCL_TIDL_SetupParams =
  enableTrace :: int
  networkParamHeapSize :: nat
  setup_noZeroCoeffsPercentage :: int
  sizeofTIDL_CreateParams :: nat
  offsetofNet :: nat
  errorCode :: int

record ArgInfo =
  ptr_m :: "nat option"
  size_m :: nat

text \<open>
  Modelled from the spec: the conversion of an \<open>ArgInfo\<close> to the \<open>DeviceArgInfo\<close> of a
  kernel argument list is declared in device\_arginfo.h, which is not among the sources.
  An \<open>ArgInfo\<close> describes a host pointer and a size, and such an argument is a buffer
  argument, realised by \<open>CreateBuffer\<close>.
\<close>

definition DeviceArgInfo_of :: "ArgInfo \<Rightarrow> DeviceArgInfo" where
  "DeviceArgInfo_of a =
     \<lparr>arg_ptr = ptr_m a, arg_size = size_m a, arg_kind = BUFFER, arg_isLocal = False\<rparr>"

text \<open>
  util.cpp and the file system are outside the sources: \<open>host\<close> gives what
  \<open>ReadBinary\<close> and \<open>GetBinaryFileSize\<close> return for a file name, the contents of
  freshly allocated memory read as a \<open>TIDL_CreateParams\<close> and as the \<open>errorCode\<close> of
  the setup parameters, and the value of a default-constructed \<open>Configuration\<close>. \<open>ReadBinary_net\<close> is \<open>None\<close> when the call
  returns false, otherwise the network read into the structure.
\<close>

record host =
  ReadBinary_net :: "string \<Rightarrow> sTIDL_Network_t option"
  GetBinaryFileSize :: "string \<Rightarrow> nat"
  ReadBinary_params :: "string \<Rightarrow> nat \<Rightarrow> bool"
  fresh_CreateParams :: TIDL_CreateParams
  fresh_errorCode :: int
  default_Configuration :: Configuration

text \<open>
  \<open>malloc_ddr\<close> asserts that \<open>__malloc_ddr\<close> did not return null. The allocator is
  part of the runtime: the script decides whether the allocation succeeds.
\<close>

definition malloc_ddr :: "nat \<Rightarrow> ocl \<Rightarrow> error + (nat \<times> ocl)" where
  "malloc_ddr sz w =
     (let (ret, w') = api_call w
      in if ret = 0 then Inr (ncalls w, w') else Inl Abort)"

datatype CallType = INIT | PROCESS | CLEANUP

text \<open>
  execution\_object.cpp is not among the sources. The constructor of an
  \<open>ExecutionObject\<close> and its \<open>RunAsync\<close> and \<open>Wait\<close> are parameters of the model,
  with the signatures of execution\_object.h; \<open>'eo\<close> is the state of one execution
  object.
\<close>

record 'eo eo_ops =
  ExecutionObject_new ::
    "Device \<Rightarrow> nat \<Rightarrow> ArgInfo \<Rightarrow> ArgInfo \<Rightarrow> nat \<Rightarrow> bool \<Rightarrow> ocl \<Rightarrow> error + ('eo \<times> ocl)"
  ExecutionObject_RunAsync :: "CallType \<Rightarrow> 'eo \<Rightarrow> ocl \<Rightarrow> error + ((bool \<times> 'eo) \<times> ocl)"
  ExecutionObject_Wait :: "CallType \<Rightarrow> 'eo \<Rightarrow> ocl \<Rightarrow> error + ((bool \<times> 'eo) \<times> ocl)"






record 'eo ExecutorImpl =
  configuration_m :: Configuration
  shared_networkparam_heap_m :: "nat option"
  impl_device_ids_m :: DeviceIds
  core_type_m :: DeviceType
  layers_group_id_m :: int
  device_m :: "Device option"
  execution_objects_m :: "'eo list"

text \<open>
  \<open>ExecutorImpl::ExecutorImpl\<close>. executor.cpp names the second device type \<open>DLA\<close>;
  executor.h and ocl\_device.cpp name it \<open>EVE\<close>.
\<close>

definition ExecutorImpl_new ::
    "macros \<Rightarrow> host \<Rightarrow> DeviceType \<Rightarrow> DeviceIds \<Rightarrow> int \<Rightarrow> ocl \<Rightarrow> error + ('eo ExecutorImpl \<times> ocl)" where
  "ExecutorImpl_new c h core_type ids layers_group_id w =
     (let name = (if core_type = DSP then []
                  else SETUP_KERNEL c @ '';'' @ INIT_KERNEL c @ '';'' @ PROCESS_KERNEL c
                       @ '';'' @ CLEANUP_KERNEL c)
      in bnd (Device_Create c core_type ids name w) (\<lambda>dev w1.
           Inr (\<lparr>configuration_m = default_Configuration h, shared_networkparam_heap_m = None,
                 impl_device_ids_m = ids, core_type_m = core_type,
                 layers_group_id_m = layers_group_id, device_m = dev,
                 execution_objects_m = []\<rparr>, w1)))"

definition InitializeNetworkCreateParam ::
    "macros \<Rightarrow> int \<Rightarrow> TIDL_CreateParams \<Rightarrow> Configuration \<Rightarrow> TIDL_CreateParams" where
  "InitializeNetworkCreateParam c layers_group_id CP configuration =
     CP\<lparr>currCoreId := layers_group_id, currLayersGroupId := layers_group_id,
        l1MemSize := DMEM0_SIZE c, l2MemSize := DMEM1_SIZE c, l3MemSize := OCMC_SIZE c,
        quantHistoryParam1 := QUANT_HISTORY_PARAM1 c,
        quantHistoryParam2 := QUANT_HISTORY_PARAM2 c,
        quantMargin := QUANT_MARGIN c, optimiseExtMem := TIDL_optimiseExtMemL1 c\<rparr>"

text \<open>
  The loop of \<open>Initialize\<close> under \<open>if (configuration.runFullNet)\<close>:
  \<open>for (int i = 0; i < net->numLayers; i++) if (net->TIDLLayers[i].layerType !=
  TIDL_DataLayer) net->TIDLLayers[i].layersGroupId = layers_group_id_m;\<close>.
  An index beyond the layer array is undefined.
\<close>

function force_layers_group :: "macros \<Rightarrow> int \<Rightarrow> int \<Rightarrow> sTIDL_Network_t \<Rightarrow> error + sTIDL_Network_t" where
  "force_layers_group c layers_group_id i n =
     (if i < numLayers n then
        if i < 0 \<or> \<not> nat i < length (TIDLLayers n) then Inl Undefined
        else force_layers_group c layers_group_id (i + 1)
               (if layerType (TIDLLayers n ! nat i) \<noteq> TIDL_DataLayer c
                then n\<lparr>TIDLLayers :=
                        (TIDLLayers n)[nat i := (TIDLLayers n ! nat i)\<lparr>layersGroupId := layers_group_id\<rparr>]\<rparr>
                else n)
      else Inr n)"
  by pat_completeness auto
termination
  by (relation "measure (\<lambda>(c, g, i, n). nat (numLayers n - i))") auto

declare force_layers_group.simps [simp del]

text \<open>
  The part of \<open>Initialize\<close> that prepares the network: read it, set
  \<open>interElementSize\<close>, and apply the full-network override when it is enabled.
\<close>

definition load_network ::
    "macros \<Rightarrow> host \<Rightarrow> Configuration \<Rightarrow> int \<Rightarrow> error + sTIDL_Network_t" where
  "load_network c h configuration layers_group_id =
     (case ReadBinary_net h (netBinFile configuration) of
        None \<Rightarrow> Inl Abort
      | Some n \<Rightarrow>
          let n1 = n\<lparr>interElementSize := 4\<rparr>
          in if runFullNet configuration then force_layers_group c layers_group_id 0 n1
             else Inr n1)"

text \<open>
  \<open>InitializeNetworkParams\<close> up to and including \<open>K->Wait()\<close>: allocate the
  buffers, build the setup kernel on the first device id of the executor, run it and
  wait. The device-side kernel stores its result in \<open>setupParams->errorCode\<close>; the
  runtime's \<open>device_errorCode\<close> is the value it stores.
\<close>

definition run_setup_kernel ::
    "macros \<Rightarrow> host \<Rightarrow> 'eo ExecutorImpl \<Rightarrow> nat \<Rightarrow> ocl \<Rightarrow>
     error + ((bool \<times> OCL_TIDL_SetupParams \<times> Kernel \<times> 'eo ExecutorImpl) \<times> ocl)" where
  "run_setup_kernel c h ex cp w =
     (let networkparam_size = GetBinaryFileSize h (paramsBinFile (configuration_m ex))
      in bnd (malloc_ddr networkparam_size w) (\<lambda>networkparam w1.
           let status = ReadBinary_params h (paramsBinFile (configuration_m ex)) networkparam_size
           in if \<not> status then Inl Abort
              else
                bnd (malloc_ddr (sizeof_OCL_TIDL_SetupParams c) w1) (\<lambda>setupParams_ptr w2.
                  let setupParams =
                        \<lparr>enableTrace = OCL_TIDL_TRACE_OFF c,
                         networkParamHeapSize = PARAM_HEAP_SIZE (configuration_m ex),
                         setup_noZeroCoeffsPercentage = noZeroCoeffsPercentage (configuration_m ex),
                         sizeofTIDL_CreateParams = sizeof_TIDL_CreateParams c,
                         offsetofNet = offsetof_TIDL_CreateParams_net c,
                         errorCode = fresh_errorCode h\<rparr>
                  in bnd (malloc_ddr (networkParamHeapSize setupParams) w2) (\<lambda>heap w3.
                       let ex1 = ex\<lparr>shared_networkparam_heap_m := Some heap\<rparr>;
                           args = [\<lparr>ptr_m = Some cp, size_m = sizeof_TIDL_CreateParams c\<rparr>,
                                   \<lparr>ptr_m = Some networkparam, size_m = networkparam_size\<rparr>,
                                   \<lparr>ptr_m = Some heap, size_m = networkParamHeapSize setupParams\<rparr>,
                                   \<lparr>ptr_m = Some setupParams_ptr,
                                    size_m = sizeof_OCL_TIDL_SetupParams c\<rparr>]
                       in case ids_list (impl_device_ids_m ex) of
                            [] \<Rightarrow> Inl Undefined
                          | did # _ \<Rightarrow>
                              (case device_m ex of
                                 None \<Rightarrow> Inl Undefined
                               | Some d \<Rightarrow>
                                   bnd (Kernel_new c d (SETUP_KERNEL c) (map DeviceArgInfo_of args)
                                          (index_of did) w3) (\<lambda>K w4.
                                   bnd (Kernel_RunAsync d (context_idx_default c) K w4) (\<lambda>K1 w5.
                                   bnd (Kernel_Wait (context_idx_default c) K1 w5) (\<lambda>r w6.
                                     Inr ((status, setupParams\<lparr>errorCode := device_errorCode w6\<rparr>,
                                           snd r, ex1), w6)))))))))"

definition InitializeNetworkParams ::
    "macros \<Rightarrow> host \<Rightarrow> 'eo ExecutorImpl \<Rightarrow> nat \<Rightarrow> ocl \<Rightarrow>
     error + ((bool \<times> 'eo ExecutorImpl) \<times> ocl)" where
  "InitializeNetworkParams c h ex cp w =
     bnd (run_setup_kernel c h ex cp w) (\<lambda>(status, setupParams, K, ex1) w1.
       if errorCode setupParams \<noteq> OCL_TIDL_SUCCESS c
       then Inl (Throw (Exception_errorCode c (errorCode setupParams)
                          ''src/executor.cpp'' ''InitializeNetworkParams'' 174))
       else Inr ((status, ex1), Kernel_delete K w1))"

fun create_execution_objects ::
    "'eo eo_ops \<Rightarrow> Device \<Rightarrow> ArgInfo \<Rightarrow> ArgInfo \<Rightarrow> Configuration \<Rightarrow> DeviceId list \<Rightarrow> 'eo list \<Rightarrow>
     ocl \<Rightarrow> error + ('eo list \<times> ocl)" where
  "create_execution_objects ops d create_arg param_heap_arg conf [] eos w = Inr (eos, w)"
| "create_execution_objects ops d create_arg param_heap_arg conf (did # ids) eos w =
     bnd (ExecutionObject_new ops d (index_of did) create_arg param_heap_arg
            (EXTMEM_HEAP_SIZE conf) (enableInternalInput conf) w) (\<lambda>eo w1.
       create_execution_objects ops d create_arg param_heap_arg conf ids (eos @ [eo]) w1)"

text \<open>\<open>for (auto &eo : execution_objects_m) eo->RunAsync(ct);\<close> and the same with \<open>Wait\<close>.\<close>

fun for_each_eo ::
    "('eo \<Rightarrow> ocl \<Rightarrow> error + ((bool \<times> 'eo) \<times> ocl)) \<Rightarrow> 'eo list \<Rightarrow> ocl \<Rightarrow> error + ('eo list \<times> ocl)" where
  "for_each_eo f [] w = Inr ([], w)"
| "for_each_eo f (eo # eos) w =
     bnd (f eo w) (\<lambda>r w1.
       bnd (for_each_eo f eos w1) (\<lambda>eos1 w2. Inr (snd r # eos1, w2)))"

text \<open>
  \<open>Initialize\<close> from the call of \<open>InitializeNetworkParams\<close> (line 101) to
  \<open>return true\<close>: run the setup kernel, construct one execution object per requested
  id, call \<open>RunAsync(INIT)\<close> on each and then \<open>Wait(INIT)\<close> on each. The results of
  the two calls are not looked at.
\<close>

definition Initialize_objects ::
    "macros \<Rightarrow> host \<Rightarrow> 'eo eo_ops \<Rightarrow> nat \<Rightarrow> 'eo ExecutorImpl \<Rightarrow> ocl \<Rightarrow>
     error + ((bool \<times> 'eo ExecutorImpl) \<times> ocl)" where
  "Initialize_objects c h ops shared_createparam ex0 w1 =
     bnd (InitializeNetworkParams c h ex0 shared_createparam w1) (\<lambda>r w2.
       let ex1 = snd r;
           create_arg = \<lparr>ptr_m = Some shared_createparam,
                         size_m = sizeof_TIDL_CreateParams c\<rparr>;
           param_heap_arg = \<lparr>ptr_m = shared_networkparam_heap_m ex1,
                             size_m = PARAM_HEAP_SIZE (configuration_m ex1)\<rparr>
       in case device_m ex1 of
            None \<Rightarrow> Inl Undefined
          | Some d \<Rightarrow>
              bnd (create_execution_objects ops d create_arg param_heap_arg
                     (configuration_m ex1) (ids_list (impl_device_ids_m ex1))
                     (execution_objects_m ex1) w2) (\<lambda>eos w3.
              bnd (for_each_eo (ExecutionObject_RunAsync ops INIT) eos w3) (\<lambda>eos1 w4.
              bnd (for_each_eo (ExecutionObject_Wait ops INIT) eos1 w4) (\<lambda>eos2 w5.
                Inr ((True, ex1\<lparr>execution_objects_m := eos2\<rparr>), w5)))))"

text \<open>
  \<open>ExecutorImpl::Initialize\<close>. The create parameters live in memory from
  \<open>malloc_ddr\<close>: \<open>InitializeNetworkCreateParam\<close>, \<open>ReadBinary\<close> and the
  full-network loop write them there, and the setup kernel and the execution objects
  get their address. \<open>shared_createparam\<close> is a local \<open>up_malloc_ddr\<close>, so the
  memory is freed when \<open>Initialize\<close> returns.
\<close>

definition Initialize ::
    "macros \<Rightarrow> host \<Rightarrow> 'eo eo_ops \<Rightarrow> Configuration \<Rightarrow> 'eo ExecutorImpl \<Rightarrow> ocl \<Rightarrow>
     error + ((bool \<times> 'eo ExecutorImpl) \<times> ocl)" where
  "Initialize c h ops configuration ex w =
     (let ex0 = ex\<lparr>configuration_m := configuration\<rparr>
      in bnd (malloc_ddr (sizeof_TIDL_CreateParams c) w) (\<lambda>shared_createparam w1.
           let CP = InitializeNetworkCreateParam c (layers_group_id_m ex0)
                      (fresh_CreateParams h) configuration
           in case load_network c h (configuration_m ex0) (layers_group_id_m ex0) of
                Inl e \<Rightarrow> Inl e
              | Inr n \<Rightarrow>
                  let w2 = w1\<lparr>ddr := (ddr w1)(shared_createparam \<mapsto> CP\<lparr>net := n\<rparr>)\<rparr>
                  in bnd (Initialize_objects c h ops shared_createparam ex0 w2) (\<lambda>r w3.
                       Inr (r, w3\<lparr>ddr := (ddr w3)(shared_createparam := None)\<rparr>))))"

text \<open>
  \<open>Executor::Executor\<close>: build the implementation object, then initialise it. The
  executor is its \<open>pimpl_m\<close>; it exists only when the constructor returns.
\<close>

definition Executor_new ::
    "macros \<Rightarrow> host \<Rightarrow> 'eo eo_ops \<Rightarrow> DeviceType \<Rightarrow> DeviceIds \<Rightarrow> Configuration \<Rightarrow> int \<Rightarrow> ocl \<Rightarrow>
     error + ('eo ExecutorImpl \<times> ocl)" where
  "Executor_new c h ops core_type ids configuration layers_group_id w =
     bnd (ExecutorImpl_new c h core_type ids layers_group_id w) (\<lambda>pimpl_m w1.
       bnd (Initialize c h ops configuration pimpl_m w1) (\<lambda>r w2. Inr (snd r, w2)))"

definition GetExecutionObjects :: "'eo ExecutorImpl \<Rightarrow> 'eo list" where
  "GetExecutionObjects pimpl_m = execution_objects_m pimpl_m"

section \<open>Concrete inputs\<close>

text \<open>
  An AM57 platform with one DSP device of two compute units and two EVE devices, on
  which every call succeeds; a kernel with two context slots and nothing in flight; a
  device with one open queue; a buffer argument in device-visible memory.
\<close>

definition am57_runtime :: ocl where
  "am57_runtime =
     \<lparr>script = (\<lambda>n. 0), ncalls = 0, objects = [],
      platform_version = ''OpenCL 1.1 TI product version 01.01.17.00'',
      platform_name = ''TI AM57'',
      num_devices = (\<lambda>t. if t = CL_DEVICE_TYPE_ACCELERATOR then 1 else 2),
      max_compute_units = 2, n_sub_devices_avail = 2, max_clock_frequency = 750,
      is_in_malloced_region = (\<lambda>p. p < 100), device_errorCode = 0, ddr = (\<lambda>p. None)\<rparr>"

definition idle_kernel :: Kernel where
  "idle_kernel =
     \<lparr>name_m = ''ocl_tidl_process'', device_index_m = 0, kernel_m = Some 7,
      event_m = [None, None], buffers_m = []\<rparr>"

definition bare_device :: Device where
  "bare_device =
     \<lparr>device_type_m = CL_DEVICE_TYPE_CUSTOM, device_ids_m = {ID0},
      queue_m = [Some 3, None, None, None], context_m = Some 2, program_m = Some 5,
      freq_in_mhz_m = 750\<rparr>"

definition cmem_arg :: DeviceArgInfo where
  "cmem_arg = \<lparr>arg_ptr = Some 64, arg_size = 784, arg_kind = BUFFER, arg_isLocal = False\<rparr>"

text \<open>
  Values for the constants of the missing headers; a network of three layers (a data
  layer and two others) in a layer array of four; a configuration that names it and
  enables the full-network override; a host on which both files can be read; and a
  platform that is not an AM57, whose version string has no \<open>01.\<close> in it.
\<close>

definition tidl_macros :: macros where
  "tidl_macros =
     \<lparr>MAX_DEVICES = 4, NUM_CONTEXTS = 2, ocl_wrapper_dsp_bin_len = 1024,
      BUILD_VER = ''01.02.00.00'', BUILD_SHA = ''abc1234'',
      SETUP_KERNEL = ''ocl_tidl_setup'', INIT_KERNEL = ''ocl_tidl_initialize'',
      PROCESS_KERNEL = ''ocl_tidl_process'', CLEANUP_KERNEL = ''ocl_tidl_cleanup'',
      context_idx_default = 0, sizeof_TIDL_CreateParams = 4096,
      offsetof_TIDL_CreateParams_net = 64, sizeof_OCL_TIDL_SetupParams = 24,
      DMEM0_SIZE = 8192, DMEM1_SIZE = 131072, OCMC_SIZE = 327680,
      QUANT_HISTORY_PARAM1 = 20, QUANT_HISTORY_PARAM2 = 5, QUANT_MARGIN = 0,
      TIDL_optimiseExtMemL1 = 1, OCL_TIDL_TRACE_OFF = 0,
      OCL_TIDL_SUCCESS = 0, OCL_TIDL_ERROR = 1, OCL_TIDL_ALLOC_FAIL = 2,
      OCL_TIDL_MEMREC_ALLOC_FAIL = 3, OCL_TIDL_PROCESS_FAIL = 4,
      OCL_TIDL_CREATE_PARAMS_MISMATCH = 5, TIDL_DataLayer = 0, handle_init = Some None\<rparr>"

definition mnist_net :: sTIDL_Network_t where
  "mnist_net =
     \<lparr>numLayers = 3, interElementSize = 1,
      TIDLLayers = [\<lparr>layerType = 0, layersGroupId = 0\<rparr>, \<lparr>layerType = 1, layersGroupId = 1\<rparr>,
                    \<lparr>layerType = 6, layersGroupId = 2\<rparr>, \<lparr>layerType = 1, layersGroupId = 7\<rparr>]\<rparr>"

definition mnist_configuration :: Configuration where
  "mnist_configuration =
     \<lparr>netBinFile = ''tidl_net_mnist.bin'', paramsBinFile = ''tidl_param_mnist.bin'',
      runFullNet = True, PARAM_HEAP_SIZE = 1048576, EXTMEM_HEAP_SIZE = 2097152,
      noZeroCoeffsPercentage = 100, enableInternalInput = False\<rparr>"

definition mnist_host :: host where
  "mnist_host =
     \<lparr>ReadBinary_net = (\<lambda>f. if f = ''tidl_net_mnist.bin'' then Some mnist_net else None),
      GetBinaryFileSize = (\<lambda>f. 2000),
      ReadBinary_params = (\<lambda>f n. f = ''tidl_param_mnist.bin''),
      fresh_CreateParams =
        \<lparr>net = \<lparr>numLayers = 0, interElementSize = 0, TIDLLayers = []\<rparr>,
         currCoreId = 0, currLayersGroupId = 0, l1MemSize = 0, l2MemSize = 0, l3MemSize = 0,
         quantHistoryParam1 = 0, quantHistoryParam2 = 0, quantMargin = 0, optimiseExtMem = 0\<rparr>,
      fresh_errorCode = 77,
      default_Configuration =
        \<lparr>netBinFile = [], paramsBinFile = [], runFullNet = False, PARAM_HEAP_SIZE = 0,
         EXTMEM_HEAP_SIZE = 0, noZeroCoeffsPercentage = 100, enableInternalInput = False\<rparr>\<rparr>"

definition foreign_runtime :: ocl where
  "foreign_runtime = am57_runtime\<lparr>platform_version := ''OpenCL 2.0 pocl'', platform_name := ''pocl''\<rparr>"

section \<open>Notions for the statements about device creation\<close>

text \<open>
  The queue objects that a run of the queue loop adds to the runtime, and the queue
  array it leaves, as functions of the first handle and the ids; the queue objects a
  call created; and what it means that a call ended at the first failing runtime call:
  \<open>first_fail s n code\<close> says that \<open>code\<close> is the first error code other than
  \<open>CL_SUCCESS\<close> that the script \<open>s\<close> holds from call \<open>n\<close> on, \<open>calls_ok w w'\<close> that
  \<open>w'\<close> is \<open>w\<close> after some calls that all succeeded.
\<close>

fun queue_objs ::
    "handle option \<Rightarrow> cl_device_id option list \<Rightarrow> 64 word \<Rightarrow> nat \<Rightarrow> DeviceId list \<Rightarrow>
     (handle \<times> ocl_object) list" where
  "queue_objs ctx devs props n [] = []"
| "queue_objs ctx devs props n (did # ids) =
     (n, QueueObj ctx (the (devs ! index_of did)) props) # queue_objs ctx devs props (Suc n) ids"

fun assign_queues :: "nat \<Rightarrow> DeviceId list \<Rightarrow> handle option list \<Rightarrow> handle option list" where
  "assign_queues n [] qs = qs"
| "assign_queues n (did # ids) qs = assign_queues (Suc n) ids (qs[index_of did := Some n])"

fun is_queue :: "handle \<times> ocl_object \<Rightarrow> bool" where
  "is_queue (h, QueueObj ctx dev props) = True"
| "is_queue (h, obj) = False"

definition created_queues :: "ocl \<Rightarrow> ocl \<Rightarrow> (handle \<times> ocl_object) list" where
  "created_queues w w' = filter is_queue (drop (length (objects w)) (objects w'))"

definition zeros :: "(nat \<Rightarrow> int) \<Rightarrow> nat \<Rightarrow> nat \<Rightarrow> bool" where
  "zeros s n k \<longleftrightarrow> (\<forall>j. n \<le> j \<and> j < k \<longrightarrow> s j = 0)"


definition calls_ok :: "ocl \<Rightarrow> ocl \<Rightarrow> bool" where
  "calls_ok w w' \<longleftrightarrow>
     script w' = script w \<and> num_devices w' = num_devices w \<and> ncalls w \<le> ncalls w' \<and>
     zeros (script w) (ncalls w) (ncalls w')"


definition dsp_not_found :: Exception where
  "dsp_not_found =
     Exception_error ''OpenCL DSP device not found'' ''src/ocl_device.cpp'' ''DspDevice'' 73"





text \<open>
  The device that the queue of a requested id is opened on, and the queue properties, per
  device class. Further platforms: an AM57 whose DSP device has a single compute unit,
  one on which every runtime call fails with \<open>CL_DEVICE_NOT_FOUND\<close>, one on which the
  eighth call (\<open>clBuildProgram\<close> of a DSP device with one requested id) fails with
  \<open>CL_BUILD_PROGRAM_FAILURE\<close>.
\<close>

definition one_unit_runtime :: ocl where
  "one_unit_runtime = am57_runtime\<lparr>max_compute_units := 1\<rparr>"



fun unit_device :: "DeviceType \<Rightarrow> DeviceId \<Rightarrow> cl_device_id" where
  "unit_device DSP did = SubDev (Dev CL_DEVICE_TYPE_ACCELERATOR 0) (index_of did)"
| "unit_device EVE did = Dev CL_DEVICE_TYPE_CUSTOM (index_of did)"

fun queue_properties :: "DeviceType \<Rightarrow> 64 word" where
  "queue_properties DSP = CL_QUEUE_PROFILING_ENABLE"
| "queue_properties EVE = CL_QUEUE_PROFILING_ENABLE OR CL_QUEUE_OUT_OF_ORDER_EXEC_MODE_ENABLE"

text \<open>
  The device and the runtime state that result from creating a DSP device for the ids 0
  and 1 on the single-unit platform, and an EVE device for the ids 0 and 1 on the AM57.
\<close>

definition one_unit_device :: Device where
  "one_unit_device =
     \<lparr>device_type_m = CL_DEVICE_TYPE_ACCELERATOR, device_ids_m = {ID0, ID1},
      queue_m = [Some 3, None, None, None], context_m = Some 2,
      program_m = Some 4, freq_in_mhz_m = 750\<rparr>"

definition one_unit_after :: ocl where
  "one_unit_after =
     one_unit_runtime\<lparr>ncalls := 7,
       objects := [(2, ContextObj [Some (Dev CL_DEVICE_TYPE_ACCELERATOR 0)]),
                   (3, QueueObj (Some 2) (Dev CL_DEVICE_TYPE_ACCELERATOR 0) CL_QUEUE_PROFILING_ENABLE),
                   (4, ProgramObj (Some 2) [Some (Dev CL_DEVICE_TYPE_ACCELERATOR 0)]
                         ''ocl_wrapper_dsp_bin'')]\<rparr>"

definition eve_device :: Device where
  "eve_device =
     \<lparr>device_type_m = CL_DEVICE_TYPE_CUSTOM, device_ids_m = {ID0, ID1},
      queue_m = [Some 2, Some 3, None, None], context_m = Some 1,
      program_m = Some 4, freq_in_mhz_m = 750\<rparr>"

definition eve_after :: ocl where
  "eve_after =
     am57_runtime\<lparr>ncalls := 6,
       objects := [(1, ContextObj [Some (Dev CL_DEVICE_TYPE_CUSTOM 0),
                                   Some (Dev CL_DEVICE_TYPE_CUSTOM 1)]),
                   (2, QueueObj (Some 1) (Dev CL_DEVICE_TYPE_CUSTOM 0)
                         (CL_QUEUE_PROFILING_ENABLE OR CL_QUEUE_OUT_OF_ORDER_EXEC_MODE_ENABLE)),
                   (3, QueueObj (Some 1) (Dev CL_DEVICE_TYPE_CUSTOM 1)
                         (CL_QUEUE_PROFILING_ENABLE OR CL_QUEUE_OUT_OF_ORDER_EXEC_MODE_ENABLE)),
                   (4, ProgramObj (Some 1) [Some (Dev CL_DEVICE_TYPE_CUSTOM 0),
                                            Some (Dev CL_DEVICE_TYPE_CUSTOM 1)]
                         ''ocl_tidl_setup'')]\<rparr>"

text \<open>
  Further inputs for the statements about the constructor of \<open>Executor\<close>: an AM57 on
  which the setup kernel reports the error code 5; one on which the second runtime call
  (the creation of the context of an EVE device) fails with \<open>CL_OUT_OF_RESOURCES\<close>; and
  an implementation of the execution-object operations in which an execution object
  records its device index, the call types in flight and the call types completed, and
  makes no call into the runtime.
\<close>

definition mismatch_runtime :: ocl where
  "mismatch_runtime = am57_runtime\<lparr>device_errorCode := 5\<rparr>"

record recording_eo =
  eo_device_index :: nat
  eo_issued :: "CallType list"
  eo_completed :: "CallType list"

definition recording_ops :: "recording_eo eo_ops" where
  "recording_ops =
     \<lparr>ExecutionObject_new = (\<lambda>d device_index create_arg param_heap_arg extmem_heap_size
          internal_input w.
          Inr (\<lparr>eo_device_index = device_index, eo_issued = [], eo_completed = []\<rparr>, w)),
      ExecutionObject_RunAsync = (\<lambda>ct eo w.
          if ct \<in> set (eo_issued eo) then Inr ((False, eo), w)
          else Inr ((True, eo\<lparr>eo_issued := ct # eo_issued eo\<rparr>), w)),
      ExecutionObject_Wait = (\<lambda>ct eo w.
          if ct \<in> set (eo_issued eo)
          then Inr ((True, eo\<lparr>eo_issued := removeAll ct (eo_issued eo),
                               eo_completed := ct # eo_completed eo\<rparr>), w)
          else Inr ((False, eo), w))\<rparr>"




text \<open>
  \<open>ddr_free f\<close>: the computation \<open>f\<close> neither reads nor writes the create parameters
  in memory, so that it runs the same whatever they are.
\<close>

definition with_ddr ::
    "(nat \<Rightarrow> TIDL_CreateParams option) \<Rightarrow> error + ('a \<times> ocl) \<Rightarrow> error + ('a \<times> ocl)" where
  "with_ddr m r = (case r of Inl e \<Rightarrow> Inl e | Inr (x, w) \<Rightarrow> Inr (x, w\<lparr>ddr := m\<rparr>))"

definition ddr_free :: "(ocl \<Rightarrow> error + ('a \<times> ocl)) \<Rightarrow> bool" where
  "ddr_free f \<longleftrightarrow> (\<forall>w m. f (w\<lparr>ddr := m\<rparr>) = with_ddr m (f w))"

text \<open>
  Further inputs: an argument whose host pointer is outside device-visible memory, a
  platform that reports two DSP devices, and one on which the setup kernel reports the
  error code 2.
\<close>

definition heap_arg :: DeviceArgInfo where
  "heap_arg = \<lparr>arg_ptr = Some 5000, arg_size = 40, arg_kind = BUFFER, arg_isLocal = False\<rparr>"

definition dsp_pair_runtime :: ocl where
  "dsp_pair_runtime = am57_runtime\<lparr>num_devices := (\<lambda>t. 2)\<rparr>"


text \<open>
  An implementation of the execution-object operations that observes the network it is
  given: the constructor reads the create parameters at the address of its
  \<open>create_arg\<close> and keeps the layers-group ids of the layer array.
\<close>

record observing_eo =
  seen_index :: nat
  seen_groups :: "int list"

definition observing_ops :: "observing_eo eo_ops" where
  "observing_ops =
     \<lparr>ExecutionObject_new = (\<lambda>d device_index create_arg param_heap_arg extmem_heap_size
          internal_input w.
          case ptr_m create_arg of
            None \<Rightarrow> Inl Undefined
          | Some p \<Rightarrow>
              (case ddr w p of
                 None \<Rightarrow> Inl Undefined
               | Some CP \<Rightarrow>
                   Inr (\<lparr>seen_index = device_index,
                         seen_groups = map layersGroupId (TIDLLayers (net CP))\<rparr>, w))),
      ExecutionObject_RunAsync = (\<lambda>ct eo w. Inr ((True, eo), w)),
      ExecutionObject_Wait = (\<lambda>ct eo w. Inr ((True, eo), w))\<rparr>"

section \<open>Basic facts\<close>

lemma errorCheck_Inr: "errorCheck ret line s = Inr r \<longleftrightarrow> ret = 0 \<and> r = ((), s)"
  by (auto simp: errorCheck_def)

lemma bnd_Inr_iff: "bnd m f = Inr r \<longleftrightarrow> (\<exists>x s. m = Inr (x, s) \<and> f x s = Inr r)"
  by (auto simp: bnd_def split: sum.splits)

lemma bnd_simps: "bnd (Inl e) f = Inl e" "bnd (Inr (x, s)) f = f x s"
  by (simp_all add: bnd_def)


lemma am57_runtime_sel [simp]:
  "script am57_runtime n = 0" "ncalls am57_runtime = 0" "objects am57_runtime = []"
  "platform_version am57_runtime = ''OpenCL 1.1 TI product version 01.01.17.00''"
  "platform_name am57_runtime = ''TI AM57''"
  "num_devices am57_runtime t = (if t = CL_DEVICE_TYPE_ACCELERATOR then 1 else 2)"
  "max_compute_units am57_runtime = 2" "n_sub_devices_avail am57_runtime = 2"
  "max_clock_frequency am57_runtime = 750"
  "is_in_malloced_region am57_runtime p = (p < 100)" "device_errorCode am57_runtime = 0"
  "ddr am57_runtime p = None"
  by (simp_all add: am57_runtime_def)

section \<open>Kernel::Wait without a pending RunAsync\<close>

text \<open>
  C1. For every context slot of the kernel, \<open>Wait\<close> on a slot whose stored completion
  handle is null returns false; it neither throws nor exits, makes no call into the
  runtime (so it cannot block), and leaves the kernel, its handle table and the runtime
  state as they were.
\<close>

theorem Wait_null_slot_returns_false:
  assumes "context_idx < length (event_m k)"
    and "event_m k ! context_idx = None"
  shows "Kernel_Wait context_idx k w = Inr ((False, k), w)"
  using assms by (simp add: Kernel_Wait_def)

theorem Wait_null_slot_witness:
  "1 < length (event_m idle_kernel) \<and> event_m idle_kernel ! 1 = None \<and>
   Kernel_Wait 1 idle_kernel am57_runtime = Inr ((False, idle_kernel), am57_runtime)"
  using Wait_null_slot_returns_false [of 1 idle_kernel am57_runtime]
  by (simp add: idle_kernel_def)

section \<open>Kernel::Wait is one-shot\<close>

lemma RunAsync_stores_event:
  assumes "Kernel_RunAsync d context_idx k w = Inr (k1, w1)"
  shows "context_idx < length (event_m k) \<and>
         event_m k1 = (event_m k)[context_idx := Some (ncalls w)] \<and>
         script w (ncalls w) = 0"
  using assms
  by (auto simp: Kernel_RunAsync_def clEnqueueTask_def create_object_def api_call_def
      bnd_Inr_iff errorCheck_Inr Let_def split: if_splits prod.splits)

lemma Wait_pending_slot:
  assumes "Kernel_Wait context_idx k w = Inr ((b, k2), w2)"
    and "context_idx < length (event_m k)" and "event_m k ! context_idx = Some ev"
  shows "b \<and> k2 = k\<lparr>event_m := (event_m k)[context_idx := None]\<rparr> \<and>
         objects w2 = filter (\<lambda>(h', obj). h' \<noteq> ev) (objects w)"
  using assms
  by (auto simp: Kernel_Wait_def clWaitForEvents_def clReleaseEvent_def release_object_def
      api_call_def bnd_Inr_iff errorCheck_Inr Let_def split: if_splits prod.splits)

text \<open>
  C10. After a \<open>RunAsync\<close> on a context slot, a \<open>Wait\<close> on that slot that returns
  does return true; the completion handle that \<open>RunAsync\<close> stored has been released
  (it is no longer an object of the runtime) and the slot is null again, so a second
  \<open>Wait\<close> on the slot returns false at once and changes nothing.
\<close>

theorem Wait_is_one_shot:
  assumes "Kernel_RunAsync d context_idx k w = Inr (k1, w1)"
    and "Kernel_Wait context_idx k1 w1 = Inr ((b, k2), w2)"
  shows "b \<and> (\<exists>ev. event_m k1 ! context_idx = Some ev \<and> ev \<notin> fst ` set (objects w2)) \<and>
         event_m k2 ! context_idx = None \<and>
         Kernel_Wait context_idx k2 w2 = Inr ((False, k2), w2)"
proof -
  from RunAsync_stores_event [OF assms(1)]
  have len: "context_idx < length (event_m k1)"
    and ev: "event_m k1 ! context_idx = Some (ncalls w)" by simp_all
  from Wait_pending_slot [OF assms(2) len ev]
  have b: b and k2: "k2 = k1\<lparr>event_m := (event_m k1)[context_idx := None]\<rparr>"
    and objs: "objects w2 = filter (\<lambda>(h', obj). h' \<noteq> ncalls w) (objects w1)" by simp_all
  have rel: "ncalls w \<notin> fst ` set (objects w2)" unfolding objs by auto
  have null: "event_m k2 ! context_idx = None" using len by (simp add: k2)
  have len2: "context_idx < length (event_m k2)" using len by (simp add: k2)
  have again: "Kernel_Wait context_idx k2 w2 = Inr ((False, k2), w2)"
    using len2 null by (simp add: Kernel_Wait_def)
  show ?thesis using b ev rel null again by blast
qed

theorem Wait_is_one_shot_witness:
  "Kernel_RunAsync bare_device 1 idle_kernel am57_runtime
     = Inr (idle_kernel\<lparr>event_m := [None, Some 0]\<rparr>,
            am57_runtime\<lparr>ncalls := 1, objects := [(0, EventObj (Some 3) (Some 7))]\<rparr>) \<and>
   Kernel_Wait 1 (idle_kernel\<lparr>event_m := [None, Some 0]\<rparr>)
       (am57_runtime\<lparr>ncalls := 1, objects := [(0, EventObj (Some 3) (Some 7))]\<rparr>)
     = Inr ((True, idle_kernel), am57_runtime\<lparr>ncalls := 3\<rparr>) \<and>
   event_m idle_kernel ! 1 = None \<and>
   Kernel_Wait 1 idle_kernel (am57_runtime\<lparr>ncalls := 3\<rparr>)
     = Inr ((False, idle_kernel), am57_runtime\<lparr>ncalls := 3\<rparr>)"
proof -
  have run: "Kernel_RunAsync bare_device 1 idle_kernel am57_runtime
     = Inr (idle_kernel\<lparr>event_m := [None, Some 0]\<rparr>,
            am57_runtime\<lparr>ncalls := 1, objects := [(0, EventObj (Some 3) (Some 7))]\<rparr>)"
    by (simp add: Kernel_RunAsync_def clEnqueueTask_def create_object_def api_call_def
        errorCheck_def bnd_def idle_kernel_def bare_device_def)
  have wait: "Kernel_Wait 1 (idle_kernel\<lparr>event_m := [None, Some 0]\<rparr>)
       (am57_runtime\<lparr>ncalls := 1, objects := [(0, EventObj (Some 3) (Some 7))]\<rparr>)
     = Inr ((True, idle_kernel), am57_runtime\<lparr>ncalls := 3\<rparr>)"
    by (simp add: Kernel_Wait_def clWaitForEvents_def clReleaseEvent_def release_object_def
        api_call_def errorCheck_def bnd_def idle_kernel_def)
  show ?thesis using Wait_is_one_shot [OF run wait] run wait by simp
qed

section \<open>Executor::GetAPIVersion\<close>

text \<open>
  C5. The first call in a process returns \<open>_BUILD_VER\<close>, a dot and \<open>_BUILD_SHA\<close>.
  The second call returns the first result followed by another dot and \<open>_BUILD_SHA\<close>:
  the static string keeps what the first call appended, so the two results differ.
\<close>

theorem GetAPIVersion_second_call_differs:
  "fst (Executor_GetAPIVersion c None) = BUILD_VER c @ ''.'' @ BUILD_SHA c \<and>
   fst (Executor_GetAPIVersion c (snd (Executor_GetAPIVersion c None)))
     = fst (Executor_GetAPIVersion c None) @ ''.'' @ BUILD_SHA c \<and>
   fst (Executor_GetAPIVersion c (snd (Executor_GetAPIVersion c None)))
     \<noteq> fst (Executor_GetAPIVersion c None)"
  by (simp add: Executor_GetAPIVersion_def Let_def)

section \<open>Device::CreateBuffer\<close>

text \<open>
  C6. For every argument descriptor: without a host pointer, \<open>CreateBuffer\<close> returns
  the null handle and does not call the runtime. With a host pointer, when the
  runtime's \<open>clCreateBuffer\<close> succeeds, it returns the handle of the one buffer it
  created, for that pointer and the argument's size in the device's context: with
  \<open>CL_MEM_USE_HOST_PTR\<close> (zero copy) when the pointer is in device-visible memory and
  with \<open>CL_MEM_COPY_HOST_PTR\<close> (copy in) otherwise; the flags depend on nothing
  else. Whenever it returns, the handle is null exactly when the argument has no host
  pointer.
\<close>

theorem CreateBuffer_policy:
  "(arg_ptr Arg = None \<longrightarrow> Device_CreateBuffer d Arg w = Inr (None, w)) \<and>
   (\<forall>host_ptr. arg_ptr Arg = Some host_ptr \<and> script w (ncalls w) = 0 \<longrightarrow>
      Device_CreateBuffer d Arg w =
        Inr (Some (ncalls w),
             w\<lparr>ncalls := Suc (ncalls w),
               objects := objects w @
                 [(ncalls w, BufferObj (context_m d)
                        (if is_in_malloced_region w host_ptr
                         then CL_MEM_READ_WRITE OR CL_MEM_USE_HOST_PTR
                         else CL_MEM_READ_WRITE OR CL_MEM_COPY_HOST_PTR)
                        (arg_size Arg) host_ptr)]\<rparr>)) \<and>
   (\<forall>buffer w'. Device_CreateBuffer d Arg w = Inr (buffer, w') \<longrightarrow>
      (buffer = None \<longleftrightarrow> arg_ptr Arg = None) \<and>
      (arg_ptr Arg = None \<longrightarrow> w' = w) \<and>
      (\<forall>host_ptr. arg_ptr Arg = Some host_ptr \<longrightarrow>
         (\<exists>h. buffer = Some h \<and>
            objects w' = objects w @
              [(h, BufferObj (context_m d)
                     (if is_in_malloced_region w host_ptr
                      then CL_MEM_READ_WRITE OR CL_MEM_USE_HOST_PTR
                      else CL_MEM_READ_WRITE OR CL_MEM_COPY_HOST_PTR)
                     (arg_size Arg) host_ptr)])))"
proof -
  have 1: "arg_ptr Arg = None \<Longrightarrow> Device_CreateBuffer d Arg w = Inr (None, w)"
    by (simp add: Device_CreateBuffer_def)
  have 2: "Device_CreateBuffer d Arg w =
        Inr (Some (ncalls w),
             w\<lparr>ncalls := Suc (ncalls w),
               objects := objects w @
                 [(ncalls w, BufferObj (context_m d)
                        (if is_in_malloced_region w host_ptr
                         then CL_MEM_READ_WRITE OR CL_MEM_USE_HOST_PTR
                         else CL_MEM_READ_WRITE OR CL_MEM_COPY_HOST_PTR)
                        (arg_size Arg) host_ptr)]\<rparr>)"
    if "arg_ptr Arg = Some host_ptr" "script w (ncalls w) = 0" for host_ptr
    using that
    by (simp add: Device_CreateBuffer_def clCreateBuffer_def create_object_def api_call_def
        errorCheck_def bnd_simps Let_def)
  have 3: "(buffer = None \<longleftrightarrow> arg_ptr Arg = None) \<and>
      (arg_ptr Arg = None \<longrightarrow> w' = w) \<and>
      (\<forall>host_ptr. arg_ptr Arg = Some host_ptr \<longrightarrow>
         (\<exists>h. buffer = Some h \<and>
            objects w' = objects w @
              [(h, BufferObj (context_m d)
                     (if is_in_malloced_region w host_ptr
                      then CL_MEM_READ_WRITE OR CL_MEM_USE_HOST_PTR
                      else CL_MEM_READ_WRITE OR CL_MEM_COPY_HOST_PTR)
                     (arg_size Arg) host_ptr)]))"
    if "Device_CreateBuffer d Arg w = Inr (buffer, w')" for buffer w'
    using that
    by (auto simp: Device_CreateBuffer_def clCreateBuffer_def create_object_def
        api_call_def bnd_Inr_iff errorCheck_Inr Let_def split: if_splits prod.splits option.splits)
  show ?thesis using 1 2 3 by blast
qed

theorem CreateBuffer_policy_witness:
  "arg_ptr cmem_arg = Some 64 \<and> is_in_malloced_region am57_runtime 64 \<and>
   arg_ptr heap_arg = Some 5000 \<and> \<not> is_in_malloced_region am57_runtime 5000 \<and>
   script am57_runtime (ncalls am57_runtime) = 0 \<and>
   CL_MEM_READ_WRITE OR CL_MEM_USE_HOST_PTR = 9 \<and> CL_MEM_READ_WRITE OR CL_MEM_COPY_HOST_PTR = 33 \<and>
   Device_CreateBuffer bare_device cmem_arg am57_runtime
     = Inr (Some 0, am57_runtime\<lparr>ncalls := 1,
              objects := [(0, BufferObj (Some 2) 9 784 64)]\<rparr>) \<and>
   Device_CreateBuffer bare_device heap_arg am57_runtime
     = Inr (Some 0, am57_runtime\<lparr>ncalls := 1,
              objects := [(0, BufferObj (Some 2) 33 40 5000)]\<rparr>)"
proof -
  have facts: "arg_ptr cmem_arg = Some 64" "is_in_malloced_region am57_runtime 64"
    "arg_ptr heap_arg = Some 5000" "\<not> is_in_malloced_region am57_runtime 5000"
    "script am57_runtime (ncalls am57_runtime) = 0"
    "CL_MEM_READ_WRITE OR CL_MEM_USE_HOST_PTR = 9"
    "CL_MEM_READ_WRITE OR CL_MEM_COPY_HOST_PTR = 33"
    "arg_size cmem_arg = 784" "arg_size heap_arg = 40" "context_m bare_device = Some 2"
    by (simp_all add: cmem_arg_def heap_arg_def bare_device_def CL_MEM_READ_WRITE_def
        CL_MEM_USE_HOST_PTR_def CL_MEM_COPY_HOST_PTR_def)
  from CreateBuffer_policy [of cmem_arg bare_device am57_runtime, THEN conjunct2, THEN conjunct1]
    CreateBuffer_policy [of heap_arg bare_device am57_runtime, THEN conjunct2, THEN conjunct1]
    facts
  show ?thesis by simp
qed

section \<open>The full-network override: preparing the network\<close>

lemma force_layers_group_result:
  assumes "0 \<le> i" and "numLayers n \<le> int (length (TIDLLayers n))"
  shows "\<exists>n'. force_layers_group c g i n = Inr n' \<and>
           numLayers n' = numLayers n \<and> interElementSize n' = interElementSize n \<and>
           length (TIDLLayers n') = length (TIDLLayers n) \<and>
           (\<forall>k < length (TIDLLayers n).
              TIDLLayers n' ! k =
                (if i \<le> int k \<and> int k < numLayers n \<and>
                    layerType (TIDLLayers n ! k) \<noteq> TIDL_DataLayer c
                 then (TIDLLayers n ! k)\<lparr>layersGroupId := g\<rparr> else TIDLLayers n ! k))"
  using assms
proof (induction c g i n rule: force_layers_group.induct)
  case (1 c g i n)
  show ?case
  proof (cases "i < numLayers n")
    case False
    then show ?thesis by (simp add: force_layers_group.simps [of c g i n])
  next
    case True
    let ?n1 = "(if layerType (TIDLLayers n ! nat i) \<noteq> TIDL_DataLayer c
                then n\<lparr>TIDLLayers :=
                        (TIDLLayers n)[nat i := (TIDLLayers n ! nat i)\<lparr>layersGroupId := g\<rparr>]\<rparr>
                else n)"
    have inr: "nat i < length (TIDLLayers n)" using True 1 by linarith
    have nl: "numLayers ?n1 = numLayers n" "interElementSize ?n1 = interElementSize n"
      "length (TIDLLayers ?n1) = length (TIDLLayers n)" by simp_all
    have step: "force_layers_group c g i n = force_layers_group c g (i + 1) ?n1"
      using True inr "1.prems"(1) by (subst force_layers_group.simps) simp
    have "\<exists>n'. force_layers_group c g (i + 1) ?n1 = Inr n' \<and>
           numLayers n' = numLayers ?n1 \<and> interElementSize n' = interElementSize ?n1 \<and>
           length (TIDLLayers n') = length (TIDLLayers ?n1) \<and>
           (\<forall>k < length (TIDLLayers ?n1).
              TIDLLayers n' ! k =
                (if i + 1 \<le> int k \<and> int k < numLayers ?n1 \<and>
                    layerType (TIDLLayers ?n1 ! k) \<noteq> TIDL_DataLayer c
                 then (TIDLLayers ?n1 ! k)\<lparr>layersGroupId := g\<rparr> else TIDLLayers ?n1 ! k))"
      apply (rule "1.IH")
      using True inr "1.prems" by (auto simp: nl)
    then obtain n' where n': "force_layers_group c g (i + 1) ?n1 = Inr n'"
      "numLayers n' = numLayers n" "interElementSize n' = interElementSize n"
      "length (TIDLLayers n') = length (TIDLLayers n)"
      and layers: "\<And>k. k < length (TIDLLayers n) \<Longrightarrow>
              TIDLLayers n' ! k =
                (if i + 1 \<le> int k \<and> int k < numLayers n \<and>
                    layerType (TIDLLayers ?n1 ! k) \<noteq> TIDL_DataLayer c
                 then (TIDLLayers ?n1 ! k)\<lparr>layersGroupId := g\<rparr> else TIDLLayers ?n1 ! k)"
      unfolding nl by blast
    have "TIDLLayers n' ! k =
                (if i \<le> int k \<and> int k < numLayers n \<and>
                    layerType (TIDLLayers n ! k) \<noteq> TIDL_DataLayer c
                 then (TIDLLayers n ! k)\<lparr>layersGroupId := g\<rparr> else TIDLLayers n ! k)"
      if k: "k < length (TIDLLayers n)" for k
    proof (cases "k = nat i")
      case True
      then have "int k = i" using "1.prems"(1) by simp
      then show ?thesis using layers [OF k] k True \<open>i < numLayers n\<close> by (simp add: nth_list_update)
    next
      case False
      then have ne: "int k \<noteq> i" using "1.prems"(1) by auto
      have "(i + 1 \<le> int k) = (i \<le> int k)" using ne by linarith
      then show ?thesis using layers [OF k] k False by (simp add: nth_list_update)
    qed
    then show ?thesis using step n' by simp
  qed
qed

lemma load_network_override:
  assumes "ReadBinary_net h (netBinFile conf) = Some n0"
    and "numLayers n0 \<le> int (length (TIDLLayers n0))"
  shows "\<exists>n. load_network c h conf g = Inr n \<and>
           length (TIDLLayers n) = length (TIDLLayers n0) \<and>
           (\<forall>k < length (TIDLLayers n0).
              layerType (TIDLLayers n ! k) = layerType (TIDLLayers n0 ! k) \<and>
              layersGroupId (TIDLLayers n ! k) =
                (if runFullNet conf \<and> int k < numLayers n0 \<and>
                    layerType (TIDLLayers n0 ! k) \<noteq> TIDL_DataLayer c
                 then g else layersGroupId (TIDLLayers n0 ! k)))"
proof (cases "runFullNet conf")
  case False
  then show ?thesis using assms(1) by (simp add: load_network_def)
next
  case True
  let ?n1 = "n0\<lparr>interElementSize := 4\<rparr>"
  have "numLayers ?n1 \<le> int (length (TIDLLayers ?n1))" using assms(2) by simp
  from force_layers_group_result [OF _ this, of 0 c g]
  obtain n where n: "force_layers_group c g 0 ?n1 = Inr n"
    "length (TIDLLayers n) = length (TIDLLayers n0)"
    and layers: "\<And>k. k < length (TIDLLayers n0) \<Longrightarrow>
       TIDLLayers n ! k =
         (if int k < numLayers n0 \<and> layerType (TIDLLayers n0 ! k) \<noteq> TIDL_DataLayer c
          then (TIDLLayers n0 ! k)\<lparr>layersGroupId := g\<rparr> else TIDLLayers n0 ! k)"
    by auto
  have "load_network c h conf g = Inr n" using True assms(1) n(1) by (simp add: load_network_def)
  then show ?thesis using n(2) layers True by simp
qed

section \<open>GetNumDevices on a platform that is not an AM57\<close>

text \<open>
  C4. On a platform whose version string does not contain \<open>01.\<close>, with every
  runtime call succeeding, \<open>GetNumDevices\<close> does not return 0 for either device
  class: \<open>CheckOpenCLVersion\<close> passes the \<open>npos\<close> of \<open>find\<close> to \<open>substr\<close>, and the
  \<open>std::out_of_range\<close> it throws leaves \<open>GetNumDevices\<close>.
\<close>

theorem GetNumDevices_throws_on_foreign_platform:
  "Executor_GetNumDevices tidl_macros DSP foreign_runtime = Inl (Throw std_out_of_range) \<and>
   Executor_GetNumDevices tidl_macros EVE foreign_runtime = Inl (Throw std_out_of_range)"
  by (simp add: Executor_GetNumDevices_def Device_GetNumDevices_def PlatformIsAM57_def
      CheckOpenCLVersion_def clGetPlatformIDs_def clGetPlatformInfo_size_def
      clGetPlatformInfo_value_def platform_info_def api_call_def bnd_def read_out_def
      c_string_def string_find_def substr_def foreign_runtime_def Let_def)

section \<open>Device creation: the queues\<close>

lemma at_Inr: "at xs i s = Inr r \<longleftrightarrow> i < length xs \<and> (\<exists>x. xs ! i = Some x \<and> r = (x, s))"
  by (auto simp: at_def split: option.splits)

lemma read_out_Inr: "read_out x s = Inr r \<longleftrightarrow> (\<exists>v. x = Some v \<and> r = (v, s))"
  by (auto simp: read_out_def split: option.splits)

lemma create_queues_Inr:
  assumes "create_queues ctx devs props line ids qs w = Inr (qs', w')"
  shows "w' = w\<lparr>ncalls := ncalls w + length ids,
                 objects := objects w @ queue_objs ctx devs props (ncalls w) ids\<rparr> \<and>
         qs' = assign_queues (ncalls w) ids qs \<and>
         (\<forall>did \<in> set ids. index_of did < length qs \<and> index_of did < length devs \<and>
                            devs ! index_of did \<noteq> None) \<and>
         (\<forall>j < length ids. script w (ncalls w + j) = 0)"
  using assms
proof (induction ids arbitrary: qs w)
  case Nil
  then show ?case by simp
next
  case (Cons did ids)
  from Cons.prems obtain dev where
    r: "index_of did < length qs" "index_of did < length devs" "devs ! index_of did = Some dev"
    and s0: "script w (ncalls w) = 0"
    and rest: "create_queues ctx devs props line ids (qs[index_of did := Some (ncalls w)])
                 (w\<lparr>ncalls := Suc (ncalls w),
                    objects := objects w @ [(ncalls w, QueueObj ctx dev props)]\<rparr>) = Inr (qs', w')"
    by (auto simp: bnd_Inr_iff at_Inr errorCheck_Inr clCreateCommandQueue_def create_object_def
        api_call_def Let_def split: if_splits prod.splits)
  note ih = Cons.IH [OF rest]
  have "\<forall>j < length (did # ids). script w (ncalls w + j) = 0"
  proof (intro allI impI)
    fix j assume "j < length (did # ids)"
    then show "script w (ncalls w + j) = 0"
      using s0 ih by (cases j) auto
  qed
  then show ?case using ih r by auto
qed

lemma assign_queues_length [simp]: "length (assign_queues n ids qs) = length qs"
  by (induction ids arbitrary: n qs) auto

lemma assign_queues_other:
  "i \<notin> index_of ` set ids \<Longrightarrow> assign_queues n ids qs ! i = qs ! i"
  by (induction ids arbitrary: n qs) auto

lemma assign_queues_nth:
  assumes "distinct (map index_of ids)" and "k < length ids" and "index_of (ids ! k) < length qs"
  shows "assign_queues n ids qs ! index_of (ids ! k) = Some (n + k)"
  using assms
proof (induction ids arbitrary: n qs k)
  case Nil
  then show ?case by simp
next
  case (Cons did ids)
  show ?case
  proof (cases k)
    case 0
    then show ?thesis using Cons.prems by (simp add: assign_queues_other)
  next
    case (Suc k')
    then show ?thesis using Cons.prems Cons.IH [of k' "qs[index_of did := Some n]" "Suc n"] by simp
  qed
qed

lemma queue_objs_snd:
  "map snd (queue_objs ctx devs props n ids) =
     map (\<lambda>did. QueueObj ctx (the (devs ! index_of did)) props) ids"
  by (induction ids arbitrary: n) auto

lemma queue_objs_fst: "map fst (queue_objs ctx devs props n ids) = [n..<n + length ids]"
  by (induction ids arbitrary: n) (auto simp: upt_rec)

lemma queue_objs_nth:
  "k < length ids \<Longrightarrow>
   queue_objs ctx devs props n ids ! k = (n + k, QueueObj ctx (the (devs ! index_of (ids ! k))) props)"
proof (induction ids arbitrary: n k)
  case Nil
  then show ?case by simp
next
  case (Cons did ids)
  then show ?case by (cases k) auto
qed

lemma index_of_inj: "index_of a = index_of b \<Longrightarrow> a = b"
  by (cases a; cases b) simp_all

lemma ids_list_set [simp]: "set (ids_list ids) = ids"
proof -
  have "d \<in> set [ID0, ID1, ID2, ID3]" for d by (cases d) simp_all
  then have "set (ids_list ids) = {d. d \<in> ids}"
    unfolding ids_list_def set_filter by blast
  then show ?thesis by simp
qed

lemma ids_list_distinct [simp]: "distinct (ids_list ids)"
  by (simp add: ids_list_def)

lemma ids_list_index_distinct: "distinct (map index_of (ids_list ids))"
  by (simp add: distinct_map inj_on_def index_of_inj)


lemma filter_is_queue_queue_objs [simp]:
  "filter is_queue (queue_objs ctx devs props n ids) = queue_objs ctx devs props n ids"
  by (induction ids arbitrary: n) auto

lemma BuildProgram_dsp_Inr:
  assumes "DspDevice_BuildProgramFromBinary c d devs n w = Inr (d', w')"
  shows "d' = d\<lparr>program_m := Some (ncalls w)\<rparr> \<and>
         w' = w\<lparr>ncalls := ncalls w + 2,
                 objects := objects w @
                   [(ncalls w, ProgramObj (context_m d) (take n devs) ''ocl_wrapper_dsp_bin'')]\<rparr>"
  using assms
  by (auto simp: DspDevice_BuildProgramFromBinary_def clCreateProgramWithBinary_def
      clBuildProgram_def create_object_def api_call_def bnd_Inr_iff errorCheck_Inr Let_def
      split: if_splits prod.splits)

lemma DspDevice_one_unit_Inr:
  assumes "DspDevice_one_unit c d dev0 devs w = Inr (d', w')"
  shows "queue_m d' = (queue_m d)[0 := Some (Suc (ncalls w))] \<and> 0 < length (queue_m d) \<and>
         context_m d' = Some (ncalls w) \<and> device_ids_m d' = device_ids_m d \<and>
         created_queues w w' =
           [(Suc (ncalls w), QueueObj (Some (ncalls w)) dev0 CL_QUEUE_PROFILING_ENABLE)]"
  using assms
  by (auto simp: DspDevice_one_unit_def clCreateContextFromType_def clCreateCommandQueue_def
      create_object_def api_call_def bnd_Inr_iff errorCheck_Inr Let_def created_queues_def
      dest!: BuildProgram_dsp_Inr split: if_splits prod.splits)

lemma upt_0_2: "[0..<2] = [0, Suc 0]"
  by (simp add: upt_rec)

lemma DspDevice_sub_devices_Inr:
  assumes "DspDevice_sub_devices c d dev0 w = Inr (d', w')"
  shows "queue_m d' = assign_queues (ncalls w + 3) (ids_list (device_ids_m d)) (queue_m d) \<and>
         context_m d' = Some (ncalls w + 2) \<and> device_ids_m d' = device_ids_m d \<and>
         (\<forall>did \<in> device_ids_m d. index_of did < length (queue_m d) \<and> index_of did < 2) \<and>
         created_queues w w' =
           queue_objs (Some (ncalls w + 2)) [Some (SubDev dev0 0), Some (SubDev dev0 1)]
             CL_QUEUE_PROFILING_ENABLE (ncalls w + 3) (ids_list (device_ids_m d))"
  using assms
  by (auto simp: DspDevice_sub_devices_def clCreateSubDevices_count_def clCreateSubDevices_def
      clCreateContext_def read_out_Inr upt_0_2 numeral_3_eq_3 numeral_2_eq_2
      create_object_def api_call_def bnd_Inr_iff errorCheck_Inr Let_def created_queues_def
      dest!: BuildProgram_dsp_Inr create_queues_Inr split: if_splits prod.splits)

lemma created_queues_trans:
  assumes "objects w1 = objects w @ xs" and "objects w2 = objects w1 @ ys"
  shows "created_queues w w2 = filter is_queue xs @ created_queues w1 w2"
  using assms by (simp add: created_queues_def)

lemma clGetDeviceIDs_Inr:
  "clGetDeviceIDs t n w = (ret, devs, found, w1) \<Longrightarrow> ret = 0 \<Longrightarrow>
     devs = map (\<lambda>i. if i < num_devices w t then Some (Dev t i) else None) [0..<n] \<and>
     found = Some (num_devices w t) \<and> w1 = w\<lparr>ncalls := Suc (ncalls w)\<rparr> \<and>
     script w (ncalls w) = 0"
  by (auto simp: clGetDeviceIDs_def api_call_def Let_def split: if_splits)

lemma created_queues_ncalls [simp]:
  "created_queues (w\<lparr>ncalls := n\<rparr>) w' = created_queues w w'"
  "created_queues w (w'\<lparr>ncalls := n\<rparr>) = created_queues w w'"
  by (simp_all add: created_queues_def)

lemma bnd_errorCheck_Inr:
  "bnd (errorCheck ret line s) f = Inr r \<longleftrightarrow> ret = 0 \<and> f () s = Inr r"
  by (auto simp: bnd_def errorCheck_def)

lemma bnd_read_out_Inr:
  "bnd (read_out x s) f = Inr r \<longleftrightarrow> (\<exists>v. x = Some v \<and> f v s = Inr r)"
  by (auto simp: bnd_def read_out_def split: option.splits)

lemma bnd_at_Inr:
  "bnd (at xs i s) f = Inr r \<longleftrightarrow> i < length xs \<and> (\<exists>v. xs ! i = Some v \<and> f v s = Inr r)"
  by (auto simp: bnd_def at_def split: option.splits)

lemma Device_base_sel [simp]:
  "device_type_m (Device_base c t ids) = t" "device_ids_m (Device_base c t ids) = ids"
  "queue_m (Device_base c t ids) = replicate (MAX_DEVICES c) None"
  "context_m (Device_base c t ids) = (case handle_init c of None \<Rightarrow> None | Some v \<Rightarrow> v)"
  "program_m (Device_base c t ids) = (case handle_init c of None \<Rightarrow> None | Some v \<Rightarrow> v)"
  by (simp_all add: Device_base_def)

lemma clock_frequency_tail:
  "(case clGetDeviceInfo_MAX_CLOCK_FREQUENCY dev w4 of
      (errcode, freq, w5) \<Rightarrow>
        bnd (errorCheck errcode line w5)
          (\<lambda>_ w6. Inr (case freq of None \<Rightarrow> d1 | Some f \<Rightarrow> d1\<lparr>freq_in_mhz_m := f\<rparr>, w6)))
     = Inr (d, w') \<longleftrightarrow>
   script w4 (ncalls w4) = 0 \<and> d = d1\<lparr>freq_in_mhz_m := max_clock_frequency w4\<rparr> \<and>
   w' = w4\<lparr>ncalls := Suc (ncalls w4)\<rparr>"
  by (auto simp: clGetDeviceInfo_MAX_CLOCK_FREQUENCY_def api_call_def bnd_errorCheck_Inr Let_def)

lemma DspDevice_steps:
  assumes "DspDevice c ids bin w = Inr (d, w')"
  shows "num_devices w CL_DEVICE_TYPE_ACCELERATOR = 1 \<and> 0 < MAX_DEVICES c \<and>
    (\<exists>d1 w4 devs.
      (if max_compute_units w = 1
       then DspDevice_one_unit c (Device_base c CL_DEVICE_TYPE_ACCELERATOR ids)
              (Dev CL_DEVICE_TYPE_ACCELERATOR 0) devs (w\<lparr>ncalls := Suc (Suc (ncalls w))\<rparr>)
       else DspDevice_sub_devices c (Device_base c CL_DEVICE_TYPE_ACCELERATOR ids)
              (Dev CL_DEVICE_TYPE_ACCELERATOR 0) (w\<lparr>ncalls := Suc (Suc (ncalls w))\<rparr>))
        = Inr (d1, w4) \<and>
      d = d1\<lparr>freq_in_mhz_m := max_clock_frequency w4\<rparr> \<and>
      w' = w4\<lparr>ncalls := Suc (ncalls w4)\<rparr>)"
  using assms
  by (auto simp: DspDevice_def clGetDeviceIDs_def clGetDeviceInfo_MAX_COMPUTE_UNITS_def
        api_call_def bnd_Inr_iff errorCheck_Inr read_out_Inr at_Inr
        clock_frequency_tail Let_def split: if_splits)

lemma DspDevice_Inr:
  assumes "DspDevice c ids bin w = Inr (d, w')"
  shows "num_devices w CL_DEVICE_TYPE_ACCELERATOR = 1 \<and> 0 < MAX_DEVICES c \<and>
         device_ids_m d = ids \<and> length (queue_m d) = MAX_DEVICES c \<and>
         (max_compute_units w = 1 \<longrightarrow>
            (\<exists>h ctx. queue_m d = (replicate (MAX_DEVICES c) None)[0 := Some h] \<and>
               context_m d = Some ctx \<and>
               created_queues w w' =
                 [(h, QueueObj (Some ctx) (Dev CL_DEVICE_TYPE_ACCELERATOR 0)
                        CL_QUEUE_PROFILING_ENABLE)])) \<and>
         (max_compute_units w \<noteq> 1 \<longrightarrow>
            (\<exists>n ctx. queue_m d = assign_queues n (ids_list ids) (replicate (MAX_DEVICES c) None) \<and>
               context_m d = Some ctx \<and>
               (\<forall>did \<in> ids. index_of did < MAX_DEVICES c \<and> index_of did < 2) \<and>
               created_queues w w' =
                 queue_objs (Some ctx)
                   [Some (SubDev (Dev CL_DEVICE_TYPE_ACCELERATOR 0) 0),
                    Some (SubDev (Dev CL_DEVICE_TYPE_ACCELERATOR 0) 1)]
                   CL_QUEUE_PROFILING_ENABLE n (ids_list ids)))"
proof -
  let ?d0 = "Device_base c CL_DEVICE_TYPE_ACCELERATOR ids"
  let ?w3 = "w\<lparr>ncalls := Suc (Suc (ncalls w))\<rparr>"
  from DspDevice_steps [OF assms] obtain d1 w4 devs where
    found: "num_devices w CL_DEVICE_TYPE_ACCELERATOR = 1" and max: "0 < MAX_DEVICES c"
    and branch: "(if max_compute_units w = 1
       then DspDevice_one_unit c ?d0 (Dev CL_DEVICE_TYPE_ACCELERATOR 0) devs ?w3
       else DspDevice_sub_devices c ?d0 (Dev CL_DEVICE_TYPE_ACCELERATOR 0) ?w3) = Inr (d1, w4)"
    and d: "d = d1\<lparr>freq_in_mhz_m := max_clock_frequency w4\<rparr>"
    and w': "w' = w4\<lparr>ncalls := Suc (ncalls w4)\<rparr>"
    by blast
  show ?thesis
  proof (cases "max_compute_units w = 1")
    case True
    with branch have "DspDevice_one_unit c ?d0 (Dev CL_DEVICE_TYPE_ACCELERATOR 0) devs ?w3 = Inr (d1, w4)"
      by simp
    from DspDevice_one_unit_Inr [OF this] show ?thesis
      using True found max by (simp add: d w')
  next
    case False
    with branch have "DspDevice_sub_devices c ?d0 (Dev CL_DEVICE_TYPE_ACCELERATOR 0) ?w3 = Inr (d1, w4)"
      by simp
    from DspDevice_sub_devices_Inr [OF this] show ?thesis
      using False found max by (auto simp: d w')
  qed
qed

section \<open>Device creation: how it fails\<close>

lemma zeros_same [simp]: "zeros s n n"
  by (simp add: zeros_def)

lemma zeros_Suc [simp]: "n \<le> k \<Longrightarrow> zeros s n (Suc k) \<longleftrightarrow> s k = 0 \<and> zeros s n k"
  by (auto simp: zeros_def less_Suc_eq)


lemma zeros_offsets:
  assumes "\<forall>j < m. s (n + j) = 0"
  shows "zeros s n (n + m)"
  unfolding zeros_def
proof (intro allI impI)
  fix j
  assume j: "n \<le> j \<and> j < n + m"
  then have "j - n < m" by arith
  with assms have "s (n + (j - n)) = 0" by blast
  moreover have "n + (j - n) = j" using j by arith
  ultimately show "s j = 0" by simp
qed



lemma calls_ok_refl [simp]: "calls_ok w w"
  by (simp add: calls_ok_def)





lemma calls_ok_num_devices: "calls_ok w w' \<Longrightarrow> num_devices w' = num_devices w"
  by (simp add: calls_ok_def)



















lemma release_queues_Inr:
  "\<forall>j \<in> set js. j < length qs \<Longrightarrow> \<exists>w'. release_queues qs js w = Inr ((), w')"
  by (induction js arbitrary: w) (simp_all add: Let_def)

lemma release_queues_Inl:
  "release_queues qs js w = Inl e \<Longrightarrow> e = Undefined \<and> (\<exists>j \<in> set js. \<not> j < length qs)"
  by (induction js arbitrary: w) (auto simp: Let_def split: if_splits)

lemma Device_delete_Inr:
  "card (device_ids_m d) \<le> length (queue_m d) \<Longrightarrow> \<exists>w'. Device_delete d w = Inr ((), w')"
  using release_queues_Inr [of "[0..<card (device_ids_m d)]" "queue_m d" w]
  by (auto simp: Device_delete_def Let_def bnd_def)

lemma release_queues_Undefined:
  "\<exists>j \<in> set js. \<not> j < length qs \<Longrightarrow> release_queues qs js w = Inl Undefined"
  by (induction js arbitrary: w) (auto simp: Let_def)

lemma Device_delete_Undefined:
  assumes "\<not> card (device_ids_m d) \<le> length (queue_m d)"
  shows "Device_delete d w = Inl Undefined"
proof -
  have "\<exists>j \<in> set [0..<card (device_ids_m d)]. \<not> j < length (queue_m d)"
    using assms by (intro bexI [of _ "length (queue_m d)"]) simp_all
  then show ?thesis by (simp add: Device_delete_def release_queues_Undefined bnd_simps)
qed

lemma Device_delete_Inl:
  "Device_delete d w = Inl e \<Longrightarrow> e = Undefined \<and> \<not> card (device_ids_m d) \<le> length (queue_m d)"
  using release_queues_Inl [of "queue_m d" "[0..<card (device_ids_m d)]" w e]
  by (cases "release_queues (queue_m d) [0..<card (device_ids_m d)] w")
     (auto simp: Device_delete_def Let_def bnd_def)

lemma unwind_cases:
  "(if handle_init c = None then Inl Undefined
    else bnd (Device_delete d w) (\<lambda>u w3. Inl (Throw x))) =
   (if handle_init c = None \<or> \<not> card (device_ids_m d) \<le> length (queue_m d)
    then Inl Undefined else Inl (Throw x))"
proof (cases "card (device_ids_m d) \<le> length (queue_m d)")
  case True
  then show ?thesis using Device_delete_Inr [OF True, of w] by (auto simp: bnd_simps)
next
  case False
  then show ?thesis by (simp add: Device_delete_Undefined bnd_simps)
qed








section \<open>Device creation: one queue per requested unit\<close>

lemmas runtime_defs =
  api_call_def create_object_def release_object_def clEnqueueTask_def clWaitForEvents_def
  clReleaseEvent_def clGetDeviceIDs_def clGetDeviceInfo_MAX_COMPUTE_UNITS_def
  clGetDeviceInfo_MAX_CLOCK_FREQUENCY_def clCreateContextFromType_def clCreateContext_def
  clCreateCommandQueue_def clCreateSubDevices_count_def clCreateSubDevices_def
  clCreateProgramWithBinary_def clBuildProgram_def clCreateProgramWithBuiltInKernels_def
  clCreateKernel_def clSetKernelArg_def clCreateBuffer_def clReleaseMemObject_def
  clReleaseKernel_def bnd_def errorCheck_def at_def read_out_def Let_def

lemmas device_defs =
  Device_Create_def DspDevice_def EveDevice_def DspDevice_one_unit_def DspDevice_sub_devices_def
  DspDevice_BuildProgramFromBinary_def EveDevice_BuildProgramFromBinary_def Device_base_def
  ids_list_def

lemma tidl_macros_sel [simp]:
  "MAX_DEVICES tidl_macros = 4" "NUM_CONTEXTS tidl_macros = 2"
  "ocl_wrapper_dsp_bin_len tidl_macros = 1024"
  "SETUP_KERNEL tidl_macros = ''ocl_tidl_setup''"
  "context_idx_default tidl_macros = 0"
  "OCL_TIDL_SUCCESS tidl_macros = 0"
  by (simp_all add: tidl_macros_def)

lemma upt_4: "[0..<4] = [0, 1, 2, 3]"
  by (simp add: upt_rec)

lemma replicate_4: "replicate 4 x = [x, x, x, x]"
  by (simp add: eval_nat_numeral)

lemma gather_ids_Inr: "gather_ids devs ids i acc w = Inr (r, w') \<Longrightarrow> w' = w"
  by (induction ids arbitrary: i acc) (auto simp: bnd_Inr_iff at_Inr split: if_splits)

lemma BuildProgram_eve_Inr:
  assumes "EveDevice_BuildProgramFromBinary c d names devs n w = Inr (d', w')"
  shows "\<exists>ds. d' = d\<lparr>program_m := Some (ncalls w)\<rparr> \<and>
         w' = w\<lparr>ncalls := Suc (ncalls w),
                 objects := objects w @ [(ncalls w, ProgramObj (context_m d) ds names)]\<rparr>"
proof -
  from assms obtain acc w1 where g: "gather_ids devs (ids_list (device_ids_m d)) 0
        (replicate (MAX_DEVICES c) None) w = Inr (acc, w1)"
    and rest: "(case clCreateProgramWithBuiltInKernels (context_m d) (take n acc) names w1 of
                 (err, prog, w2) \<Rightarrow>
                   bnd (errorCheck err 258 w2) (\<lambda>_ w3. Inr (d\<lparr>program_m := prog\<rparr>, w3)))
               = Inr (d', w')"
    by (auto simp: EveDevice_BuildProgramFromBinary_def bnd_Inr_iff Let_def)
  from gather_ids_Inr [OF g] have w1: "w1 = w" .
  show ?thesis
  proof (cases "script w (ncalls w) = 0")
    case True
    with rest show ?thesis
      by (auto simp: w1 clCreateProgramWithBuiltInKernels_def create_object_def api_call_def
          bnd_def errorCheck_def)
  next
    case False
    with rest show ?thesis
      by (simp add: w1 clCreateProgramWithBuiltInKernels_def create_object_def api_call_def
          bnd_def errorCheck_def)
  qed
qed

lemma EveDevice_Inr:
  assumes "EveDevice c ids names w = Inr (d, w')"
  shows "device_ids_m d = ids \<and> length (queue_m d) = MAX_DEVICES c \<and>
         (\<exists>n ctx. queue_m d = assign_queues n (ids_list ids) (replicate (MAX_DEVICES c) None) \<and>
            context_m d = Some ctx \<and>
            (\<forall>did \<in> ids. index_of did < MAX_DEVICES c \<and>
                           index_of did < num_devices w CL_DEVICE_TYPE_CUSTOM) \<and>
            created_queues w w' =
              queue_objs (Some ctx)
                (map (\<lambda>i. if i < num_devices w CL_DEVICE_TYPE_CUSTOM
                          then Some (Dev CL_DEVICE_TYPE_CUSTOM i) else None) [0..<MAX_DEVICES c])
                (CL_QUEUE_PROFILING_ENABLE OR CL_QUEUE_OUT_OF_ORDER_EXEC_MODE_ENABLE) n
                (ids_list ids))"
  using assms
  apply (auto simp: EveDevice_def clGetDeviceIDs_def clCreateContextFromType_def create_object_def
        api_call_def bnd_Inr_iff errorCheck_Inr read_out_Inr at_Inr created_queues_def
        clock_frequency_tail Let_def
        dest!: create_queues_Inr BuildProgram_eve_Inr split: if_splits cong: if_cong)
  subgoal for ds
    apply (rule exI [of _ "Suc (Suc (ncalls w))"])
    apply (auto split: if_splits)
    done
  done

lemma one_unit_example:
  "Device_Create tidl_macros DSP {ID0, ID1} [] one_unit_runtime =
     Inr (Some \<lparr>device_type_m = CL_DEVICE_TYPE_ACCELERATOR, device_ids_m = {ID0, ID1},
                 queue_m = [Some 3, None, None, None], context_m = Some 2,
                 program_m = Some 4, freq_in_mhz_m = 750\<rparr>,
          one_unit_runtime\<lparr>ncalls := 7,
            objects := [(2, ContextObj [Some (Dev CL_DEVICE_TYPE_ACCELERATOR 0)]),
                        (3, QueueObj (Some 2) (Dev CL_DEVICE_TYPE_ACCELERATOR 0) 2),
                        (4, ProgramObj (Some 2) [Some (Dev CL_DEVICE_TYPE_ACCELERATOR 0)]
                              ''ocl_wrapper_dsp_bin'')]\<rparr>)"
  by (simp add: device_defs runtime_defs one_unit_runtime_def upt_4 replicate_4
      CL_QUEUE_PROFILING_ENABLE_def eval_nat_numeral)

lemma queues_per_id:
  fixes devs :: "cl_device_id option list"
  assumes qm: "qm = assign_queues n (ids_list ids) (replicate m None)"
    and cq: "cq = queue_objs ctx devs props n (ids_list ids)"
    and idx: "\<And>did. did \<in> ids \<Longrightarrow> index_of did < m \<and> the (devs ! index_of did) = dev did"
  shows "map snd cq = map (\<lambda>did. QueueObj ctx (dev did) props) (ids_list ids) \<and>
         distinct (map fst cq) \<and>
         (\<forall>did \<in> ids. \<exists>h. qm ! index_of did = Some h \<and> (h, QueueObj ctx (dev did) props) \<in> set cq) \<and>
         (\<forall>i < length qm. i \<notin> index_of ` ids \<longrightarrow> qm ! i = None)"
proof -
  have 1: "map snd cq = map (\<lambda>did. QueueObj ctx (dev did) props) (ids_list ids)"
    unfolding cq queue_objs_snd using idx by (intro map_cong refl) simp
  have 2: "distinct (map fst cq)" by (simp add: cq queue_objs_fst)
  have 3: "\<exists>h. qm ! index_of did = Some h \<and> (h, QueueObj ctx (dev did) props) \<in> set cq"
    if "did \<in> ids" for did
  proof -
    from that have "did \<in> set (ids_list ids)" by simp
    then obtain k where k: "k < length (ids_list ids)" "ids_list ids ! k = did"
      unfolding in_set_conv_nth by blast
    have "index_of (ids_list ids ! k) < length (replicate m (None :: handle option))"
      using idx [OF that] k(2) by simp
    with ids_list_index_distinct k(1)
    have "assign_queues n (ids_list ids) (replicate m None) ! index_of (ids_list ids ! k)
            = Some (n + k)"
      by (rule assign_queues_nth)
    then have "qm ! index_of did = Some (n + k)" using k(2) by (simp add: qm)
    moreover have "queue_objs ctx devs props n (ids_list ids) ! k
                     = (n + k, QueueObj ctx (the (devs ! index_of (ids_list ids ! k))) props)"
      using k(1) by (rule queue_objs_nth)
    then have "cq ! k = (n + k, QueueObj ctx (dev did) props)"
      using idx [OF that] k(2) by (simp add: cq)
    moreover have "k < length cq"
      using k(1) arg_cong [OF queue_objs_fst [of ctx devs props n "ids_list ids"], of length]
      by (simp add: cq)
    ultimately show ?thesis by (metis nth_mem)
  qed
  have 4: "qm ! i = None" if "i < length qm" "i \<notin> index_of ` ids" for i
    using that by (simp add: qm assign_queues_other)
  show ?thesis using 1 2 3 4 by blast
qed

text \<open>
  C9, as amended. When device creation returns, all queues it opened are in one context,
  which is not null. For the EVE class, and for the DSP class when the device has more
  than one compute unit, it opened one queue per requested id and no other: in the
  order of the ids, the queue of id \<open>i\<close> is on physical EVE device \<open>i\<close>, or on DSP
  sub-device \<open>i\<close>; the handles are distinct, slot \<open>i\<close> of \<open>queue_m\<close> holds the
  handle of that queue, and every other slot is null. For a DSP device with a single
  compute unit it opened exactly one queue, on the device itself and stored in slot 0,
  whatever ids were requested.
\<close>

theorem Device_Create_queues:
  assumes "Device_Create c core_type ids name w = Inr (Some d, w')"
  shows "context_m d \<noteq> None \<and>
    (core_type = DSP \<and> max_compute_units w = 1 \<longrightarrow>
       (\<exists>h. queue_m d = (replicate (MAX_DEVICES c) None)[0 := Some h] \<and>
            created_queues w w' =
              [(h, QueueObj (context_m d) (Dev CL_DEVICE_TYPE_ACCELERATOR 0)
                     CL_QUEUE_PROFILING_ENABLE)])) \<and>
    (\<not> (core_type = DSP \<and> max_compute_units w = 1) \<longrightarrow>
       map snd (created_queues w w') =
         map (\<lambda>did. QueueObj (context_m d) (unit_device core_type did)
                       (queue_properties core_type)) (ids_list ids) \<and>
       distinct (map fst (created_queues w w')) \<and>
       (\<forall>did \<in> ids. \<exists>h. queue_m d ! index_of did = Some h \<and>
           (h, QueueObj (context_m d) (unit_device core_type did) (queue_properties core_type))
             \<in> set (created_queues w w')) \<and>
       (\<forall>i < length (queue_m d). i \<notin> index_of ` ids \<longrightarrow> queue_m d ! i = None))"
proof (cases core_type)
  case DSP
  with assms have dsp: "DspDevice c ids name w = Inr (d, w')"
    by (auto simp: Device_Create_def bnd_Inr_iff)
  note r = DspDevice_Inr [OF dsp]
  show ?thesis
  proof (cases "max_compute_units w = 1")
    case True
    with r DSP show ?thesis by auto
  next
    case False
    let ?devs = "[Some (SubDev (Dev CL_DEVICE_TYPE_ACCELERATOR 0) 0),
                  Some (SubDev (Dev CL_DEVICE_TYPE_ACCELERATOR 0) 1)]"
    from r False obtain n ctx where
      qm: "queue_m d = assign_queues n (ids_list ids) (replicate (MAX_DEVICES c) None)"
      and ctx: "context_m d = Some ctx"
      and idx: "\<And>did. did \<in> ids \<Longrightarrow> index_of did < MAX_DEVICES c \<and> index_of did < 2"
      and cq: "created_queues w w' =
                 queue_objs (Some ctx) ?devs CL_QUEUE_PROFILING_ENABLE n (ids_list ids)"
      by blast
    have dev: "index_of did < MAX_DEVICES c \<and> the (?devs ! index_of did) = unit_device DSP did"
      if "did \<in> ids" for did
      using idx [OF that] by (cases did) simp_all
    from queues_per_id [OF qm cq dev] show ?thesis
      using False DSP ctx by simp
  qed
next
  case EVE
  with assms have eve: "EveDevice c ids name w = Inr (d, w')"
    by (auto simp: Device_Create_def bnd_Inr_iff)
  let ?devs = "map (\<lambda>i. if i < num_devices w CL_DEVICE_TYPE_CUSTOM
                  then Some (Dev CL_DEVICE_TYPE_CUSTOM i) else None) [0..<MAX_DEVICES c]"
  let ?props = "CL_QUEUE_PROFILING_ENABLE OR CL_QUEUE_OUT_OF_ORDER_EXEC_MODE_ENABLE"
  from EveDevice_Inr [OF eve] obtain n ctx where
    qm: "queue_m d = assign_queues n (ids_list ids) (replicate (MAX_DEVICES c) None)"
    and ctx: "context_m d = Some ctx"
    and idx: "\<And>did. did \<in> ids \<Longrightarrow> index_of did < MAX_DEVICES c \<and>
                 index_of did < num_devices w CL_DEVICE_TYPE_CUSTOM"
    and cq: "created_queues w w' = queue_objs (Some ctx) ?devs ?props n (ids_list ids)"
    by blast
  have dev: "index_of did < MAX_DEVICES c \<and> the (?devs ! index_of did) = unit_device EVE did"
    if "did \<in> ids" for did
    using idx [OF that] by simp
  from queues_per_id [OF qm cq dev] show ?thesis
    using EVE ctx by simp
qed

lemma digits_73: "digits 73 = ''73''"
  by (simp add: digits.simps)



lemma upt_2: "[0..<2] = [0, 1]"
  by (simp add: upt_rec)

lemma one_unit_created:
  "Device_Create tidl_macros DSP {ID0, ID1} [] one_unit_runtime
     = Inr (Some one_unit_device, one_unit_after)"
  by (simp add: device_defs runtime_defs one_unit_runtime_def one_unit_device_def
      one_unit_after_def upt_4 replicate_4 eval_nat_numeral)

lemma eve_created:
  "Device_Create tidl_macros EVE {ID0, ID1} ''ocl_tidl_setup'' am57_runtime
     = Inr (Some eve_device, eve_after)"
  by (simp add: device_defs runtime_defs eve_device_def eve_after_def upt_4 upt_2 replicate_4
      eval_nat_numeral)

text \<open>
  The claim as first stated fails on a DSP device with a single compute unit: for the
  requested ids 0 and 1, creation succeeds with one queue, and slot 1 stays null.
\<close>

theorem single_unit_dsp_opens_one_queue:
  "Device_Create tidl_macros DSP {ID0, ID1} [] one_unit_runtime
     = Inr (Some one_unit_device, one_unit_after) \<and>
   created_queues one_unit_runtime one_unit_after
     = [(3, QueueObj (Some 2) (Dev CL_DEVICE_TYPE_ACCELERATOR 0) CL_QUEUE_PROFILING_ENABLE)] \<and>
   queue_m one_unit_device ! index_of ID1 = None"
  using one_unit_created
  by (simp add: created_queues_def one_unit_after_def one_unit_device_def one_unit_runtime_def)

theorem Device_Create_queues_witness:
  "Device_Create tidl_macros EVE {ID0, ID1} ''ocl_tidl_setup'' am57_runtime
     = Inr (Some eve_device, eve_after) \<and>
   map snd (created_queues am57_runtime eve_after)
     = [QueueObj (Some 1) (Dev CL_DEVICE_TYPE_CUSTOM 0)
          (CL_QUEUE_PROFILING_ENABLE OR CL_QUEUE_OUT_OF_ORDER_EXEC_MODE_ENABLE),
        QueueObj (Some 1) (Dev CL_DEVICE_TYPE_CUSTOM 1)
          (CL_QUEUE_PROFILING_ENABLE OR CL_QUEUE_OUT_OF_ORDER_EXEC_MODE_ENABLE)] \<and>
   queue_m eve_device ! 2 = None \<and> queue_m eve_device ! 3 = None"
  using Device_Create_queues [OF eve_created] eve_created
  by (simp add: eve_device_def ids_list_def)

lemma dsp_not_found_message:
  "dsp_not_found =
     TIDL_Exception ''TIDL Error: [src/ocl_device.cpp, DspDevice, 73]: OpenCL DSP device not found''"
  by (simp add: dsp_not_found_def Exception_error_def location_prefix_def digits_73)


lemma DspDevice_count_wrong:
  assumes "script w (ncalls w) = 0" and "num_devices w CL_DEVICE_TYPE_ACCELERATOR \<noteq> 1"
  shows "Device_Create c DSP ids name w =
           (if handle_init c = None \<or> \<not> card ids \<le> MAX_DEVICES c then Inl Undefined
            else Inl (Throw dsp_not_found))"
  using assms
  by (simp add: Device_Create_def DspDevice_def clGetDeviceIDs_def api_call_def
        errorCheck_def read_out_def Let_def dsp_not_found_def unwind_cases bnd_simps)












section \<open>The create parameters in memory\<close>

lemma ddr_freeD: "ddr_free f \<Longrightarrow> f (w\<lparr>ddr := m\<rparr>) = with_ddr m (f w)"
  by (simp add: ddr_free_def)

lemma with_ddr_simps:
  "with_ddr m (Inl e) = Inl e" "with_ddr m (Inr (x, w)) = Inr (x, w\<lparr>ddr := m\<rparr>)"
  by (simp_all add: with_ddr_def)

lemma ddr_free_Inr: "ddr_free (\<lambda>w. Inr (x, w))"
  by (simp add: ddr_free_def with_ddr_def)

lemma ddr_free_Inl: "ddr_free (\<lambda>w. Inl e)"
  by (simp add: ddr_free_def with_ddr_def)

lemma ddr_free_bnd:
  assumes "ddr_free f" and "\<And>x. ddr_free (g x)"
  shows "ddr_free (\<lambda>w. bnd (f w) g)"
  unfolding ddr_free_def
proof (intro allI)
  fix w :: ocl and m
  show "bnd (f (w\<lparr>ddr := m\<rparr>)) g = with_ddr m (bnd (f w) g)"
  proof (cases "f w")
    case (Inl e)
    then show ?thesis using ddr_freeD [OF assms(1), where w = w and m = m] by (simp add: with_ddr_simps bnd_simps)
  next
    case (Inr p)
    obtain x w1 where p: "p = (x, w1)" by (cases p)
    show ?thesis using ddr_freeD [OF assms(1), where w = w and m = m] ddr_freeD [OF assms(2) [of x], where w = w1 and m = m] Inr p
      by (simp add: with_ddr_simps bnd_simps)
  qed
qed

lemma ddr_free_if:
  "(b \<Longrightarrow> ddr_free f) \<Longrightarrow> (\<not> b \<Longrightarrow> ddr_free g) \<Longrightarrow> ddr_free (\<lambda>w. if b then f w else g w)"
  by (cases b) simp_all

lemma ddr_free_malloc: "ddr_free (malloc_ddr sz)"
  by (simp add: ddr_free_def malloc_ddr_def api_call_def with_ddr_def Let_def)

lemma ddr_free_CreateBuffer: "ddr_free (Device_CreateBuffer d Arg)"
  by (simp add: ddr_free_def Device_CreateBuffer_def clCreateBuffer_def create_object_def
      api_call_def errorCheck_def bnd_def with_ddr_def Let_def split: option.splits)

lemma clSetKernelArg_ddr:
  "snd (clSetKernelArg krn i (w\<lparr>ddr := m\<rparr>)) = (snd (clSetKernelArg krn i w))\<lparr>ddr := m\<rparr>"
  by (simp add: clSetKernelArg_def api_call_def)

lemma ddr_free_bind_args: "ddr_free (bind_args d krn args i bufs)"
proof (induction args arbitrary: i bufs)
  case Nil
  have "bind_args d krn [] i bufs = (\<lambda>w. Inr (bufs, w))" by (rule ext) simp
  then show ?case by (simp add: ddr_free_Inr)
next
  case (Cons arg args)
  show ?case unfolding ddr_free_def
  proof (intro allI)
    fix w :: ocl and m
    note IH = ddr_freeD [OF Cons.IH]
    show "bind_args d krn (arg # args) i bufs (w\<lparr>ddr := m\<rparr>)
            = with_ddr m (bind_args d krn (arg # args) i bufs w)"
    proof (cases "Device_CreateBuffer d arg w")
      case (Inl e)
      then show ?thesis using ddr_freeD [OF ddr_free_CreateBuffer [of d arg], where w = w and m = m]
        by (simp add: with_ddr_simps bnd_simps clSetKernelArg_ddr IH Let_def)
    next
      case (Inr p)
      obtain b w1 where p: "p = (b, w1)" by (cases p)
      show ?thesis using ddr_freeD [OF ddr_free_CreateBuffer [of d arg], where w = w and m = m] Inr p
        by (simp add: with_ddr_simps bnd_simps clSetKernelArg_ddr IH Let_def)
    qed
  qed
qed

lemma ddr_free_Kernel_new: "ddr_free (Kernel_new c d name args idx)"
proof -
  have "Kernel_new c d name args idx =
     (\<lambda>w. bnd (case clCreateKernel (program_m d) name w of
                  (err, krn, w1) \<Rightarrow> bnd (errorCheck err 270 w1) (\<lambda>_ w2. Inr (krn, w2)))
            (\<lambda>krn w2. bnd (bind_args d krn args 0 [] w2) (\<lambda>bufs w3.
               Inr (\<lparr>name_m = name, device_index_m = idx, kernel_m = krn,
                     event_m = replicate (NUM_CONTEXTS c) None, buffers_m = bufs\<rparr>, w3))))"
    by (rule ext) (simp add: Kernel_new_def Let_def bnd_def errorCheck_def split: prod.splits)
  moreover have "ddr_free (\<lambda>w. case clCreateKernel (program_m d) name w of
                  (err, krn, w1) \<Rightarrow> bnd (errorCheck err 270 w1) (\<lambda>_ w2. Inr (krn, w2)))"
    by (simp add: ddr_free_def clCreateKernel_def create_object_def api_call_def errorCheck_def
        bnd_def with_ddr_def Let_def)
  ultimately show ?thesis
    by (auto intro!: ddr_free_bnd ddr_free_bind_args ddr_free_Inr)
qed

lemma ddr_free_RunAsync: "ddr_free (Kernel_RunAsync d ctx k)"
  by (simp add: ddr_free_def Kernel_RunAsync_def clEnqueueTask_def create_object_def
      api_call_def errorCheck_def bnd_def with_ddr_def Let_def)

lemma ddr_free_Wait: "ddr_free (Kernel_Wait ctx k)"
  by (simp add: ddr_free_def Kernel_Wait_def clWaitForEvents_def clReleaseEvent_def
      release_object_def api_call_def errorCheck_def bnd_def with_ddr_def Let_def
      split: option.splits)

lemma Device_ReleaseBuffer_ddr:
  "Device_ReleaseBuffer M (w\<lparr>ddr := m\<rparr>) = (Device_ReleaseBuffer M w)\<lparr>ddr := m\<rparr>"
  by (simp add: Device_ReleaseBuffer_def clReleaseMemObject_def release_object_def
        api_call_def Let_def)

lemma fold_ReleaseBuffer_ddr:
  "fold Device_ReleaseBuffer bufs (w\<lparr>ddr := m\<rparr>) = (fold Device_ReleaseBuffer bufs w)\<lparr>ddr := m\<rparr>"
  by (induction bufs arbitrary: w) (simp_all add: Device_ReleaseBuffer_ddr)

lemma Kernel_delete_ddr: "Kernel_delete k (w\<lparr>ddr := m\<rparr>) = (Kernel_delete k w)\<lparr>ddr := m\<rparr>"
  by (simp add: Kernel_delete_def fold_ReleaseBuffer_ddr clReleaseKernel_def release_object_def
      api_call_def Let_def split: option.splits)

lemma ddr_free_case_list:
  "ddr_free f \<Longrightarrow> (\<And>x xs. ddr_free (g x xs)) \<Longrightarrow>
   ddr_free (\<lambda>w. case l of [] \<Rightarrow> f w | x # xs \<Rightarrow> g x xs w)"
  by (cases l) simp_all

lemma ddr_free_case_option:
  "ddr_free f \<Longrightarrow> (\<And>x. ddr_free (g x)) \<Longrightarrow>
   ddr_free (\<lambda>w. case opt of None \<Rightarrow> f w | Some x \<Rightarrow> g x w)"
  by (cases opt) simp_all

lemma ddr_free_run_setup_kernel: "ddr_free (run_setup_kernel c h ex cp)"
  unfolding run_setup_kernel_def [abs_def] Let_def
  apply (intro ddr_free_bnd ddr_free_if ddr_free_malloc ddr_free_Kernel_new ddr_free_RunAsync
      ddr_free_Wait ddr_free_Inl ddr_free_case_list ddr_free_case_option)
  apply (simp add: ddr_free_def with_ddr_def)
  done

lemma ddr_free_InitializeNetworkParams: "ddr_free (InitializeNetworkParams c h ex cp)"
  unfolding InitializeNetworkParams_def [abs_def]
  apply (intro ddr_free_bnd ddr_free_run_setup_kernel)
  apply (simp add: ddr_free_def with_ddr_def Kernel_delete_ddr split: prod.splits)
  done

lemma run_setup_kernel_ddr:
  "run_setup_kernel c h ex cp (w\<lparr>ddr := m\<rparr>) = with_ddr m (run_setup_kernel c h ex cp w)"
  by (rule ddr_freeD [OF ddr_free_run_setup_kernel])

lemma InitializeNetworkParams_ddr:
  "InitializeNetworkParams c h ex cp (w\<lparr>ddr := m\<rparr>)
     = with_ddr m (InitializeNetworkParams c h ex cp w)"
  by (rule ddr_freeD [OF ddr_free_InitializeNetworkParams])

section \<open>The error code of the setup kernel\<close>

lemma digit_chars_distinct: "distinct ''0123456789''"
  by simp

lemma digit_char_inj:
  assumes "a < 10" and "b < 10" and "''0123456789'' ! a = ''0123456789'' ! b"
  shows "a = b"
  using assms nth_eq_iff_index_eq [OF digit_chars_distinct, of a b] by simp

lemma digits_nonempty: "digits n \<noteq> []"
  by (subst digits.simps) simp

lemma digits_single: "n < 10 \<Longrightarrow> digits n = [''0123456789'' ! n]"
  by (subst digits.simps) simp

lemma digits_more: "\<not> n < 10 \<Longrightarrow> digits n = digits (n div 10) @ [''0123456789'' ! (n mod 10)]"
  by (subst digits.simps) simp

lemma digits_length_one: "length (digits n) = Suc 0 \<longleftrightarrow> n < 10"
proof (cases "n < 10")
  case True
  then show ?thesis by (simp add: digits_single)
next
  case False
  have "length (digits (n div 10)) \<noteq> 0" using digits_nonempty by simp
  then show ?thesis using False by (simp add: digits_more)
qed

lemma digits_inj: "digits n = digits m \<Longrightarrow> n = m"
proof (induction n arbitrary: m rule: digits.induct)
  case (1 n)
  show ?case
  proof (cases "n < 10")
    case True
    then have "length (digits m) = Suc 0" using "1.prems" digits_length_one [of n] by simp
    then have m: "m < 10" by (simp add: digits_length_one)
    with True "1.prems" show ?thesis by (auto simp: digits_single intro: digit_char_inj)
  next
    case False
    then have "length (digits m) \<noteq> Suc 0" using "1.prems" digits_length_one [of n] by simp
    then have m: "\<not> m < 10" by (simp add: digits_length_one)
    from "1.prems" False m have "digits (n div 10) = digits (m div 10)"
      and "''0123456789'' ! (n mod 10) = ''0123456789'' ! (m mod 10)"
      by (simp_all add: digits_more)
    then have "n div 10 = m div 10" and "n mod 10 = m mod 10"
      using "1.IH" [OF False] by (auto intro: digit_char_inj)
    then show ?thesis by (metis div_mult_mod_eq)
  qed
qed

lemma digits_chars: "set (digits n) \<subseteq> set ''0123456789''"
proof (induction n rule: digits.induct)
  case (1 n)
  show ?case
  proof (cases "n < 10")
    case True
    then have "''0123456789'' ! n \<in> set ''0123456789''" by (intro nth_mem) simp
    then show ?thesis using True by (simp add: digits_single)
  next
    case False
    have "''0123456789'' ! (n mod 10) \<in> set ''0123456789''" by (intro nth_mem) simp
    then show ?thesis using False "1.IH" by (simp add: digits_more)
  qed
qed

lemma digits_hd: "hd (digits n) \<in> set ''0123456789''"
  using digits_chars [of n] digits_nonempty [of n] by (meson hd_in_set subsetD)

lemma to_string_inj: "to_string i = to_string j \<Longrightarrow> i = j"
proof -
  assume eq: "to_string i = to_string j"
  have neg: "hd (to_string k) = CHR ''-'' \<longleftrightarrow> k < 0" for k
  proof (cases "k < 0")
    case True
    then show ?thesis by (simp add: to_string_def)
  next
    case False
    then have "hd (to_string k) \<in> set ''0123456789''" using digits_hd by (simp add: to_string_def)
    then show ?thesis using False by auto
  qed
  have sign: "i < 0 \<longleftrightarrow> j < 0" using neg [of i] neg [of j] eq by simp
  show "i = j"
  proof (cases "i < 0")
    case True
    with sign eq have "digits (nat (- i)) = digits (nat (- j))" by (simp add: to_string_def)
    then have "nat (- i) = nat (- j)" by (rule digits_inj)
    with True sign show ?thesis by simp
  next
    case False
    with sign eq have "digits (nat i) = digits (nat j)" by (simp add: to_string_def)
    then have "nat i = nat j" by (rule digits_inj)
    with False sign show ?thesis by simp
  qed
qed

lemma to_string_hd: "to_string i \<noteq> [] \<and> hd (to_string i) \<in> set ''-0123456789''"
  using digits_hd [of "nat i"] digits_nonempty by (auto simp: to_string_def)

lemma to_string_not_text:
  "to_string i \<noteq> []" "to_string i \<noteq> ''Allocation failed on device''"
  "to_string i \<noteq> ''Memrec allocation failed on device''"
  "to_string i \<noteq> ''Process call failed on device''"
  "to_string i \<noteq> ''TIDL_CreateParams definition inconsistent across hostand device.''"
  using to_string_hd [of i] by auto

lemma errorCode_text_inj: "errorCode_text c e1 = errorCode_text c e2 \<Longrightarrow> e1 = e2"
  using to_string_not_text [of e1] to_string_not_text [of e2] to_string_inj [of e1 e2]
  by (auto simp: errorCode_text_def split: if_splits)

declare bnd_simps [simp]

lemma digits_174: "digits 174 = ''174''"
  by (simp add: digits.simps)

lemma run_setup_kernel_errorCode:
  assumes "run_setup_kernel c h ex cp w = Inr ((status, sp, K, ex1), w1)"
  shows "errorCode sp = device_errorCode w1"
proof (cases "ids_list (impl_device_ids_m ex)")
  case Nil
  then show ?thesis
    using assms by (auto simp: run_setup_kernel_def bnd_Inr_iff Let_def split: if_splits)
next
  case (Cons did rest)
  show ?thesis
  proof (cases "device_m ex")
    case None
    then show ?thesis
      using assms Cons by (auto simp: run_setup_kernel_def bnd_Inr_iff Let_def split: if_splits)
  next
    case (Some d)
    then show ?thesis
      using assms Cons by (auto simp: run_setup_kernel_def bnd_Inr_iff Let_def split: if_splits)
  qed
qed

lemma InitializeNetworkParams_after_setup:
  assumes "run_setup_kernel c h ex cp w = Inr ((status, sp, K, ex1), w1)"
  shows "InitializeNetworkParams c h ex cp w =
     (if errorCode sp \<noteq> OCL_TIDL_SUCCESS c
      then Inl (Throw (Exception_errorCode c (errorCode sp)
                         ''src/executor.cpp'' ''InitializeNetworkParams'' 174))
      else Inr ((status, ex1), Kernel_delete K w1))"
  using assms by (simp add: InitializeNetworkParams_def bnd_def)

lemma Initialize_Inl:
  assumes "malloc_ddr (sizeof_TIDL_CreateParams c) w = Inr (cp, w1)"
    and "load_network c h conf (layers_group_id_m ex) = Inr n"
    and "InitializeNetworkParams c h (ex\<lparr>configuration_m := conf\<rparr>) cp w1 = Inl e"
  shows "Initialize c h ops conf ex w = Inl e"
  using assms
  by (simp add: Initialize_def Initialize_objects_def Let_def InitializeNetworkParams_ddr
      with_ddr_simps)

lemma ExecutorImpl_new_Inr:
  assumes "ExecutorImpl_new c h core_type ids gid w = Inr (ex, w1)"
  shows "layers_group_id_m ex = gid" "impl_device_ids_m ex = ids" "execution_objects_m ex = []"
    "core_type_m ex = core_type"
  using assms by (auto simp: ExecutorImpl_new_def bnd_Inr_iff Let_def)

lemma Executor_new_Inl:
  assumes "ExecutorImpl_new c h core_type ids gid w = Inr (ex, w1)"
    and "Initialize c h ops conf ex w1 = Inl e"
  shows "Executor_new c h ops core_type ids conf gid w = Inl e"
  using assms by (simp add: Executor_new_def bnd_def)

lemma Exception_errorCode_message:
  "Exception_errorCode c code ''src/executor.cpp'' ''InitializeNetworkParams'' 174 =
     TIDL_Exception (''TIDL Error: [src/executor.cpp, InitializeNetworkParams, 174]: ''
                       @ errorCode_text c code)"
  by (simp add: Exception_errorCode_def location_prefix_def digits_174)

text \<open>
  C7. Let the success code be 0, and let the construction of an \<open>Executor\<close> get as far
  as the end of the setup kernel's run: the device is created, the create parameters
  are allocated, the network is read, and the kernel is built, run and waited for. Then
  the error code read from the setup parameters is the one the kernel stored. If it is
  not zero, the constructor throws the exception raised in \<open>InitializeNetworkParams\<close>
  (executor.cpp, line 174), whose message is the source location followed by the text
  of the code; no other code has the same text; and the create-parameters-mismatch code,
  when it differs from the four codes tested before it, has the text
  \<open>TIDL_CreateParams definition inconsistent across hostand device.\<close> If the code is
  zero, \<open>InitializeNetworkParams\<close> returns normally, after deleting the kernel.
\<close>

theorem setup_error_code_exception:
  fixes ex :: "'eo ExecutorImpl" and ops :: "'eo eo_ops"
  assumes succ: "OCL_TIDL_SUCCESS c = 0"
    and impl: "ExecutorImpl_new c h core_type ids gid w = Inr (ex, w1)"
    and alloc: "malloc_ddr (sizeof_TIDL_CreateParams c) w1 = Inr (cp, w2)"
    and netw: "load_network c h conf gid = Inr n"
    and kern: "run_setup_kernel c h (ex\<lparr>configuration_m := conf\<rparr>) cp w2
                  = Inr ((status, sp, K, ex1), w3)"
  shows "errorCode sp = device_errorCode w3 \<and>
     (errorCode sp \<noteq> 0 \<longrightarrow>
        Executor_new c h ops core_type ids conf gid w =
          Inl (Throw (TIDL_Exception
            (''TIDL Error: [src/executor.cpp, InitializeNetworkParams, 174]: ''
               @ errorCode_text c (errorCode sp))))) \<and>
     (errorCode sp = 0 \<longrightarrow>
        InitializeNetworkParams c h (ex\<lparr>configuration_m := conf\<rparr>) cp w2
          = Inr ((status, ex1), Kernel_delete K w3)) \<and>
     (\<forall>code. errorCode_text c code = errorCode_text c (errorCode sp) \<longrightarrow> code = errorCode sp) \<and>
     (errorCode sp = OCL_TIDL_CREATE_PARAMS_MISMATCH c \<and>
      errorCode sp \<notin> {OCL_TIDL_ERROR c, OCL_TIDL_ALLOC_FAIL c, OCL_TIDL_MEMREC_ALLOC_FAIL c,
                        OCL_TIDL_PROCESS_FAIL c} \<longrightarrow>
        errorCode_text c (errorCode sp)
          = ''TIDL_CreateParams definition inconsistent across hostand device.'')"
proof -
  note after = InitializeNetworkParams_after_setup [OF kern]
  have 1: "errorCode sp = device_errorCode w3"
    by (rule run_setup_kernel_errorCode [OF kern])
  have 2: "Executor_new c h ops core_type ids conf gid w =
          Inl (Throw (TIDL_Exception
            (''TIDL Error: [src/executor.cpp, InitializeNetworkParams, 174]: ''
               @ errorCode_text c (errorCode sp))))" if "errorCode sp \<noteq> 0"
  proof -
    have "InitializeNetworkParams c h (ex\<lparr>configuration_m := conf\<rparr>) cp w2 =
        Inl (Throw (TIDL_Exception
            (''TIDL Error: [src/executor.cpp, InitializeNetworkParams, 174]: ''
               @ errorCode_text c (errorCode sp))))"
      using after that succ by (simp add: Exception_errorCode_message)
    moreover have "load_network c h conf (layers_group_id_m ex) = Inr n"
      using netw ExecutorImpl_new_Inr(1) [OF impl] by simp
    ultimately have "Initialize c h ops conf ex w1 =
        Inl (Throw (TIDL_Exception
            (''TIDL Error: [src/executor.cpp, InitializeNetworkParams, 174]: ''
               @ errorCode_text c (errorCode sp))))"
      using alloc by (intro Initialize_Inl)
    then show ?thesis using impl by (rule Executor_new_Inl [rotated])
  qed
  have 3: "InitializeNetworkParams c h (ex\<lparr>configuration_m := conf\<rparr>) cp w2
          = Inr ((status, ex1), Kernel_delete K w3)" if "errorCode sp = 0"
    using after that succ by simp
  have 4: "code = errorCode sp" if "errorCode_text c code = errorCode_text c (errorCode sp)"
    for code using that by (rule errorCode_text_inj)
  have 5: "errorCode_text c (errorCode sp)
          = ''TIDL_CreateParams definition inconsistent across hostand device.''"
    if "errorCode sp = OCL_TIDL_CREATE_PARAMS_MISMATCH c"
      and "errorCode sp \<notin> {OCL_TIDL_ERROR c, OCL_TIDL_ALLOC_FAIL c, OCL_TIDL_MEMREC_ALLOC_FAIL c,
                        OCL_TIDL_PROCESS_FAIL c}"
    using that by (simp add: errorCode_text_def)
  show ?thesis using 1 2 3 4 5 by blast
qed

lemma mnist_network_loads:
  "\<exists>n. load_network tidl_macros mnist_host mnist_configuration g = Inr n"
proof -
  let ?n1 = "mnist_net\<lparr>interElementSize := 4\<rparr>"
  have "numLayers ?n1 \<le> int (length (TIDLLayers ?n1))" by (simp add: mnist_net_def)
  from force_layers_group_result [OF _ this, of 0 tidl_macros g]
  obtain n where "force_layers_group tidl_macros g 0 ?n1 = Inr n" by auto
  then show ?thesis
    by (simp add: load_network_def mnist_host_def mnist_configuration_def)
qed

lemma mismatch_setup_runs:
  "\<exists>(ex :: recording_eo ExecutorImpl) w1 cp w2 status sp K ex1 w3.
     ExecutorImpl_new tidl_macros mnist_host EVE {ID0, ID1} 1 mismatch_runtime = Inr (ex, w1) \<and>
     malloc_ddr (sizeof_TIDL_CreateParams tidl_macros) w1 = Inr (cp, w2) \<and>
     run_setup_kernel tidl_macros mnist_host (ex\<lparr>configuration_m := mnist_configuration\<rparr>) cp w2
       = Inr ((status, sp, K, ex1), w3) \<and>
     errorCode sp = 5"
  by (simp add: ExecutorImpl_new_def device_defs runtime_defs mismatch_runtime_def upt_4 upt_2
      replicate_4 tidl_macros_def malloc_ddr_def run_setup_kernel_def mnist_host_def
      mnist_configuration_def Kernel_new_def Device_CreateBuffer_def DeviceArgInfo_of_def
      Kernel_RunAsync_def Kernel_Wait_def numeral_2_eq_2) blast

theorem setup_error_code_exception_witness:
  "OCL_TIDL_SUCCESS tidl_macros = 0 \<and>
   Executor_new tidl_macros mnist_host recording_ops EVE {ID0, ID1} mnist_configuration 1
       mismatch_runtime =
     Inl (Throw (TIDL_Exception
       (''TIDL Error: [src/executor.cpp, InitializeNetworkParams, 174]: '' @
        ''TIDL_CreateParams definition inconsistent across hostand device.'')))"
proof -
  obtain ex :: "recording_eo ExecutorImpl" and w1 cp w2 status sp K ex1 w3
    where impl: "ExecutorImpl_new tidl_macros mnist_host EVE {ID0, ID1} 1 mismatch_runtime
                   = Inr (ex, w1)"
      and alloc: "malloc_ddr (sizeof_TIDL_CreateParams tidl_macros) w1 = Inr (cp, w2)"
      and kern: "run_setup_kernel tidl_macros mnist_host
                   (ex\<lparr>configuration_m := mnist_configuration\<rparr>) cp w2
                   = Inr ((status, sp, K, ex1), w3)"
      and code: "errorCode sp = 5"
    using mismatch_setup_runs by blast
  obtain n where netw: "load_network tidl_macros mnist_host mnist_configuration 1 = Inr n"
    using mnist_network_loads by blast
  have succ: "OCL_TIDL_SUCCESS tidl_macros = 0" by simp
  from setup_error_code_exception [OF succ impl alloc netw kern, of recording_ops] code
  show ?thesis by (simp add: tidl_macros_def)
qed

section \<open>Fatal setup errors\<close>


lemma dsp_pair_throws:
  "Device_Create tidl_macros DSP {ID0} [] dsp_pair_runtime =
     Inl (Throw (TIDL_Exception
       ''TIDL Error: [src/ocl_device.cpp, DspDevice, 73]: OpenCL DSP device not found''))"
  using DspDevice_count_wrong [of dsp_pair_runtime tidl_macros "{ID0}" "[]"]
  by (simp add: dsp_pair_runtime_def dsp_not_found_message tidl_macros_def)




section \<open>Construction of an Executor\<close>




lemma Executor_new_unfold:
  fixes ex :: "'eo ExecutorImpl" and ops :: "'eo eo_ops"
  assumes "ExecutorImpl_new c h core_type ids gid w = Inr (ex, w0)"
    and "malloc_ddr (sizeof_TIDL_CreateParams c) w0 = Inr (cp, w1)"
    and "load_network c h conf gid = Inr n"
  shows "Executor_new c h ops core_type ids conf gid w =
     bnd (Initialize_objects c h ops cp (ex\<lparr>configuration_m := conf\<rparr>)
            (w1\<lparr>ddr := (ddr w1)(cp \<mapsto>
               (InitializeNetworkCreateParam c gid (fresh_CreateParams h) conf)\<lparr>net := n\<rparr>)\<rparr>))
       (\<lambda>r w3. Inr (snd r, w3\<lparr>ddr := (ddr w3)(cp := None)\<rparr>))"
proof -
  have gid: "layers_group_id_m ex = gid" using ExecutorImpl_new_Inr(1) [OF assms(1)] .
  show ?thesis
    using assms gid
    by (cases "Initialize_objects c h ops cp (ex\<lparr>configuration_m := conf\<rparr>)
            (w1\<lparr>ddr := (ddr w1)(cp \<mapsto>
               (InitializeNetworkCreateParam c gid (fresh_CreateParams h) conf)\<lparr>net := n\<rparr>)\<rparr>)")
       (auto simp: Executor_new_def Initialize_def Let_def)
qed











section \<open>The full-network override in the initialization of an Executor\<close>

text \<open>
  C8. Let the device be created, the create parameters be allocated at \<open>cp\<close>, the
  network file be readable and \<open>numLayers\<close> be within the layer array. Then
  \<open>Initialize\<close> prepares a network \<open>n\<close> that keeps every layer's type; with
  \<open>runFullNet\<close> set, every layer of the network (index below \<open>numLayers\<close>) that is not
  a data layer has the layers-group id the constructor of \<open>Executor\<close> was called
  with, and every data layer keeps its own; with \<open>runFullNet\<close> clear, every layer keeps
  its layers-group id. The rest of the initialization (the setup kernel and the
  construction of the execution objects, which get the address \<open>cp\<close>) runs with this
  network in the create parameters at \<open>cp\<close>.
\<close>

theorem runFullNet_override:
  fixes ex :: "'eo ExecutorImpl" and ops :: "'eo eo_ops"
  assumes impl: "ExecutorImpl_new c h core_type ids gid w = Inr (ex, w0)"
    and alloc: "malloc_ddr (sizeof_TIDL_CreateParams c) w0 = Inr (cp, w1)"
    and read: "ReadBinary_net h (netBinFile conf) = Some n0"
    and bound: "numLayers n0 \<le> int (length (TIDLLayers n0))"
  shows "\<exists>n. load_network c h conf gid = Inr n \<and>
           length (TIDLLayers n) = length (TIDLLayers n0) \<and>
           (\<forall>k < length (TIDLLayers n0).
              layerType (TIDLLayers n ! k) = layerType (TIDLLayers n0 ! k) \<and>
              layersGroupId (TIDLLayers n ! k) =
                (if runFullNet conf \<and> int k < numLayers n0 \<and>
                    layerType (TIDLLayers n0 ! k) \<noteq> TIDL_DataLayer c
                 then gid else layersGroupId (TIDLLayers n0 ! k))) \<and>
           Executor_new c h ops core_type ids conf gid w =
             bnd (Initialize_objects c h ops cp (ex\<lparr>configuration_m := conf\<rparr>)
                    (w1\<lparr>ddr := (ddr w1)(cp \<mapsto>
                       (InitializeNetworkCreateParam c gid (fresh_CreateParams h) conf)
                         \<lparr>net := n\<rparr>)\<rparr>))
               (\<lambda>r w3. Inr (snd r, w3\<lparr>ddr := (ddr w3)(cp := None)\<rparr>))"
proof -
  from load_network_override [OF read bound, of c gid]
  obtain n where n: "load_network c h conf gid = Inr n"
    and props: "length (TIDLLayers n) = length (TIDLLayers n0)"
      "\<forall>k < length (TIDLLayers n0).
              layerType (TIDLLayers n ! k) = layerType (TIDLLayers n0 ! k) \<and>
              layersGroupId (TIDLLayers n ! k) =
                (if runFullNet conf \<and> int k < numLayers n0 \<and>
                    layerType (TIDLLayers n0 ! k) \<noteq> TIDL_DataLayer c
                 then gid else layersGroupId (TIDLLayers n0 ! k))"
    by blast
  from Executor_new_unfold [OF impl alloc n, of ops] n props show ?thesis by blast
qed

lemma mnist_network_2:
  "load_network tidl_macros mnist_host mnist_configuration 2 =
     Inr \<lparr>numLayers = 3, interElementSize = 4,
          TIDLLayers = [\<lparr>layerType = 0, layersGroupId = 0\<rparr>, \<lparr>layerType = 1, layersGroupId = 2\<rparr>,
                        \<lparr>layerType = 6, layersGroupId = 2\<rparr>, \<lparr>layerType = 1, layersGroupId = 7\<rparr>]\<rparr>"
  by (simp add: load_network_def mnist_host_def mnist_configuration_def mnist_net_def
      tidl_macros_def force_layers_group.simps)

lemma am57_device_ready:
  "\<exists>(ex0 :: observing_eo ExecutorImpl) w0 cp w1.
     ExecutorImpl_new tidl_macros mnist_host EVE {ID0, ID1} 2 am57_runtime = Inr (ex0, w0) \<and>
     malloc_ddr (sizeof_TIDL_CreateParams tidl_macros) w0 = Inr (cp, w1)"
  by (simp add: ExecutorImpl_new_def device_defs runtime_defs upt_4 upt_2 replicate_4
      tidl_macros_def malloc_ddr_def)

lemma am57_observing_builds:
  "\<exists>ex w'.
     Executor_new tidl_macros mnist_host observing_ops EVE {ID0, ID1} mnist_configuration 2
       am57_runtime = Inr (ex, w') \<and>
     execution_objects_m ex =
       [\<lparr>seen_index = 0, seen_groups = [0, 2, 2, 7]\<rparr>,
        \<lparr>seen_index = 1, seen_groups = [0, 2, 2, 7]\<rparr>]"
  using mnist_network_2
  apply (simp add: Executor_new_def Initialize_def Initialize_objects_def
        InitializeNetworkParams_def
        ExecutorImpl_new_def device_defs runtime_defs upt_4 upt_2
        replicate_4 tidl_macros_def malloc_ddr_def run_setup_kernel_def mnist_host_def
        mnist_configuration_def Kernel_new_def Device_CreateBuffer_def DeviceArgInfo_of_def
        Kernel_RunAsync_def Kernel_Wait_def numeral_2_eq_2)
  apply (simp add: Kernel_delete_def Device_ReleaseBuffer_def runtime_defs observing_ops_def)
  done

theorem runFullNet_override_witness:
  "ReadBinary_net mnist_host (netBinFile mnist_configuration) = Some mnist_net \<and>
   numLayers mnist_net \<le> int (length (TIDLLayers mnist_net)) \<and>
   map layersGroupId (TIDLLayers mnist_net) = [0, 1, 2, 7] \<and>
   map layerType (TIDLLayers mnist_net) = [0, 1, 6, 1] \<and> TIDL_DataLayer tidl_macros = 0 \<and>
   (\<exists>n. load_network tidl_macros mnist_host mnist_configuration 2 = Inr n \<and>
      map layersGroupId (TIDLLayers n) = [0, 2, 2, 7]) \<and>
   (\<exists>ex w'.
      Executor_new tidl_macros mnist_host observing_ops EVE {ID0, ID1} mnist_configuration 2
        am57_runtime = Inr (ex, w') \<and>
      execution_objects_m ex =
        [\<lparr>seen_index = 0, seen_groups = [0, 2, 2, 7]\<rparr>,
         \<lparr>seen_index = 1, seen_groups = [0, 2, 2, 7]\<rparr>])"
proof -
  have h1: "ReadBinary_net mnist_host (netBinFile mnist_configuration) = Some mnist_net"
    by (simp add: mnist_host_def mnist_configuration_def)
  have h2: "numLayers mnist_net \<le> int (length (TIDLLayers mnist_net))"
    by (simp add: mnist_net_def)
  have h3: "map layersGroupId (TIDLLayers mnist_net) = [0, 1, 2, 7]"
    "map layerType (TIDLLayers mnist_net) = [0, 1, 6, 1]" "TIDL_DataLayer tidl_macros = 0"
    by (simp_all add: mnist_net_def tidl_macros_def)
  obtain ex0 :: "observing_eo ExecutorImpl" and w0 cp w1
    where impl: "ExecutorImpl_new tidl_macros mnist_host EVE {ID0, ID1} 2 am57_runtime
                   = Inr (ex0, w0)"
      and alloc: "malloc_ddr (sizeof_TIDL_CreateParams tidl_macros) w0 = Inr (cp, w1)"
    using am57_device_ready by blast
  from runFullNet_override [OF impl alloc h1 h2, of observing_ops]
  obtain n where n: "load_network tidl_macros mnist_host mnist_configuration 2 = Inr n"
    by blast
  then have "map layersGroupId (TIDLLayers n) = [0, 2, 2, 7]"
    using mnist_network_2 by auto
  with n have e1: "\<exists>n. load_network tidl_macros mnist_host mnist_configuration 2 = Inr n \<and>
      map layersGroupId (TIDLLayers n) = [0, 2, 2, 7]"
    by (intro exI conjI)
  from h1 h2 h3 e1 am57_observing_builds show ?thesis
    by - (intro conjI; assumption)
qed

end
